theory Spec2Isabelle
  imports Complex_Main "HOL-Library.Word"
begin

unbundle bit_operations_syntax

section \<open>Constants of the collaborating libraries\<close>

text \<open>
  The two operations (\<^verbatim>\<open>png-load.c\<close>, \<^verbatim>\<open>png-save.c\<close>) drive libpng, babl and GIO.
  The numeric values below are the ones of \<^verbatim>\<open>png.h\<close> and \<^verbatim>\<open>babl.h\<close>.
\<close>

definition PNG_COLOR_MASK_PALETTE :: int where "PNG_COLOR_MASK_PALETTE = 1"
definition PNG_COLOR_MASK_COLOR :: int where "PNG_COLOR_MASK_COLOR = 2"
definition PNG_COLOR_MASK_ALPHA :: int where "PNG_COLOR_MASK_ALPHA = 4"

definition PNG_COLOR_TYPE_GRAY :: int where "PNG_COLOR_TYPE_GRAY = 0"
definition PNG_COLOR_TYPE_PALETTE :: int where
  "PNG_COLOR_TYPE_PALETTE = PNG_COLOR_MASK_COLOR OR PNG_COLOR_MASK_PALETTE"
definition PNG_COLOR_TYPE_RGB :: int where "PNG_COLOR_TYPE_RGB = PNG_COLOR_MASK_COLOR"
definition PNG_COLOR_TYPE_RGB_ALPHA :: int where
  "PNG_COLOR_TYPE_RGB_ALPHA = PNG_COLOR_MASK_COLOR OR PNG_COLOR_MASK_ALPHA"
definition PNG_COLOR_TYPE_GRAY_ALPHA :: int where
  "PNG_COLOR_TYPE_GRAY_ALPHA = PNG_COLOR_MASK_ALPHA"

definition PNG_INTERLACE_NONE :: int where "PNG_INTERLACE_NONE = 0"
definition PNG_INTERLACE_ADAM7 :: int where "PNG_INTERLACE_ADAM7 = 1"
definition PNG_COMPRESSION_TYPE_BASE :: int where "PNG_COMPRESSION_TYPE_BASE = 0"
definition PNG_FILTER_TYPE_DEFAULT :: int where "PNG_FILTER_TYPE_DEFAULT = 0"
definition PNG_sRGB_INTENT_RELATIVE :: int where "PNG_sRGB_INTENT_RELATIVE = 1"
definition BABL_ICC_INTENT_RELATIVE_COLORIMETRIC :: int where
  "BABL_ICC_INTENT_RELATIVE_COLORIMETRIC = 1"

lemmas png_consts =
  PNG_COLOR_MASK_PALETTE_def PNG_COLOR_MASK_COLOR_def PNG_COLOR_MASK_ALPHA_def
  PNG_COLOR_TYPE_GRAY_def PNG_COLOR_TYPE_PALETTE_def PNG_COLOR_TYPE_RGB_def
  PNG_COLOR_TYPE_RGB_ALPHA_def PNG_COLOR_TYPE_GRAY_ALPHA_def
  PNG_INTERLACE_NONE_def PNG_INTERLACE_ADAM7_def PNG_COMPRESSION_TYPE_BASE_def
  PNG_FILTER_TYPE_DEFAULT_def PNG_sRGB_INTENT_RELATIVE_def
  BABL_ICC_INTENT_RELATIVE_COLORIMETRIC_def

section \<open>Data model\<close>

type_synonym byte = "8 word"

text \<open>
  A C \<^verbatim>\<open>double\<close> is modelled by a real number: the code only passes doubles on, apart
  from the one quotient \<^verbatim>\<open>1.0/gamma\<close>; rounding, infinities and NaN are not modelled.
\<close>

type_synonym chromaticity = "real \<times> real"

text \<open>
  babl, as far as the two files use it. Every babl object is a \<^verbatim>\<open>const Babl *\<close>;
  \<open>'b\<close> is the type of non-null pointers and \<open>None\<close> is \<^verbatim>\<open>NULL\<close>.
\<close>

record 'b babl_api =
  babl_space :: "string \<Rightarrow> 'b"
  babl_trc :: "string \<Rightarrow> 'b"
  babl_trc_gamma :: "real \<Rightarrow> 'b"
  babl_space_from_icc :: "byte list \<Rightarrow> int \<Rightarrow> int \<Rightarrow> 'b option"
  babl_space_from_chromaticities ::
    "string option \<Rightarrow> chromaticity \<Rightarrow> chromaticity \<Rightarrow> chromaticity \<Rightarrow> chromaticity
       \<Rightarrow> 'b \<Rightarrow> 'b \<Rightarrow> 'b \<Rightarrow> int \<Rightarrow> 'b option"
  babl_format_with_space :: "string \<Rightarrow> 'b option \<Rightarrow> 'b"
  babl_format_get_space :: "'b \<Rightarrow> 'b option"
  babl_format_has_alpha :: "'b \<Rightarrow> bool"
  babl_format_get_n_components :: "'b \<Rightarrow> int"
  babl_space_is_cmyk :: "'b \<Rightarrow> bool"
  babl_space_get ::
    "'b \<Rightarrow> chromaticity \<times> chromaticity \<times> chromaticity \<times> chromaticity \<times> 'b \<times> 'b \<times> 'b"
  babl_get_name :: "'b \<Rightarrow> string"
  babl_space_get_icc :: "'b \<Rightarrow> (byte list \<times> int) option"

text \<open>
  What libpng reports after \<^verbatim>\<open>png_read_info\<close>: the IHDR fields and the ancillary chunks
  the loader asks for. A chunk that \<^verbatim>\<open>png_get_valid\<close> reports as absent is \<open>None\<close>
  (or \<open>False\<close> where the loader only tests presence).
\<close>

record png_info =
  ihdr_width :: "32 word"
  ihdr_height :: "32 word"
  ihdr_bit_depth :: int
  ihdr_color_type :: int
  ihdr_interlace_type :: int
  png_get_iCCP :: "(string \<times> int \<times> byte list \<times> 32 word) option"
  png_valid_sRGB :: bool
  png_get_gAMA :: "real option"
  png_get_cHRM :: "(chromaticity \<times> chromaticity \<times> chromaticity \<times> chromaticity) option"
  png_valid_tRNS :: bool

section \<open>png-load.c: pixel format and colour space\<close>

text \<open>
  \<^verbatim>\<open>get_babl_format\<close> (png-load.c, lines 114-159). \<open>format_layout\<close> is its first
  half (lines 119-143), the choice of the channels from the colour type; \<open>None\<close> is
  its \<^verbatim>\<open>return NULL\<close>.
\<close>

definition format_layout :: "int \<Rightarrow> string option" where
  "format_layout color_type =
     (if color_type AND PNG_COLOR_TYPE_RGB \<noteq> 0 then
        (if color_type AND PNG_COLOR_MASK_ALPHA \<noteq> 0
         then Some ''R'G'B'A '' else Some ''R'G'B' '')
      else if color_type AND PNG_COLOR_TYPE_GRAY = PNG_COLOR_TYPE_GRAY then
        (if color_type AND PNG_COLOR_MASK_ALPHA \<noteq> 0
         then Some ''Y'A '' else Some ''Y' '')
      else if color_type AND PNG_COLOR_TYPE_PALETTE \<noteq> 0 then
        (if color_type AND PNG_COLOR_MASK_ALPHA \<noteq> 0
         then Some ''R'G'B'A '' else Some ''R'G'B' '')
      else None)"

definition get_babl_format :: "'b babl_api \<Rightarrow> int \<Rightarrow> int \<Rightarrow> 'b option \<Rightarrow> 'b option" where
  "get_babl_format B bit_depth color_type space =
     (case format_layout color_type of
        None \<Rightarrow> None
      | Some format_string \<Rightarrow>
          if bit_depth \<le> 8 then
            Some (babl_format_with_space B (format_string @ ''u8'') space)
          else if bit_depth = 16 then
            Some (babl_format_with_space B (format_string @ ''u16'') space)
          else None)"

text \<open>\<^verbatim>\<open>gegl_png_space\<close> (png-load.c, lines 162-213).\<close>

definition gegl_png_space :: "'b babl_api \<Rightarrow> png_info \<Rightarrow> 'b option" where
  "gegl_png_space B info =
     (case png_get_iCCP info of
        Some (name, compression_type, profile, proflen) \<Rightarrow>
          babl_space_from_icc B profile (sint proflen) BABL_ICC_INTENT_RELATIVE_COLORIMETRIC
      | None \<Rightarrow>
          if png_valid_sRGB info then None
          else
            (case png_get_gAMA info of
               Some gamma \<Rightarrow>
                 (case (case png_get_cHRM info of
                          Some chrm \<Rightarrow> chrm
                        | None \<Rightarrow> ((0.3127, 0.3290), (0.6400, 0.3300),
                                    (0.3000, 0.6000), (0.1500, 0.0600))) of
                    (wp, red, green, blue) \<Rightarrow>
                      babl_space_from_chromaticities B None wp red green blue
                        (babl_trc_gamma B (1.0 / gamma))
                        (babl_trc_gamma B (1.0 / gamma))
                        (babl_trc_gamma B (1.0 / gamma))
                        1)
             | None \<Rightarrow> None))"


section \<open>Collaborators: GIO streams and libpng\<close>

datatype LoadPngErrors = LOAD_PNG_TOO_SHORT | LOAD_PNG_WRONG_HEADER

text \<open>
  A \<^verbatim>\<open>GError\<close>: either the error a GIO call reported (its message), or one that the
  loader sets itself in its own error domain (\<^verbatim>\<open>error_quark\<close>).
\<close>

datatype gerror = Gio_error string | Load_png_error LoadPngErrors

text \<open>
  The stream operations, over a stream state \<open>'s\<close>. \<^verbatim>\<open>g_input_stream_read\<close> yields
  \<open>Inl\<close> for its result \<^verbatim>\<open>-1\<close> and otherwise the bytes read; the \<^verbatim>\<open>_all\<close> calls and
  the flush report an error by its message.
\<close>

record 's gio =
  g_input_stream_read :: "'s \<Rightarrow> nat \<Rightarrow> 's \<times> (string + byte list)"
  g_input_stream_read_all :: "'s \<Rightarrow> nat \<Rightarrow> 's \<times> byte list \<times> string option"
  g_output_stream_write_all :: "'s \<Rightarrow> byte list \<Rightarrow> 's \<times> string option"
  g_output_stream_flush :: "'s \<Rightarrow> 's \<times> string option"

text \<open>
  \<^verbatim>\<open>png_color_16\<close>; a field that the code never assigns is \<open>None\<close>.
\<close>

record png_color_16 =
  c16_index :: "byte option"
  c16_red :: "16 word option"
  c16_green :: "16 word option"
  c16_blue :: "16 word option"
  c16_gray :: "16 word option"

type_synonym rectangle = "int \<times> int \<times> int \<times> int"

text \<open>
  The calls into libpng and into the GEGL buffer, in the order the code makes them.
  libpng's state is not modelled beyond this trace.
\<close>

datatype 'b event =
    Png_create_read_struct
  | Png_create_write_struct
  | Png_create_info_struct
  | Png_destroy_read_struct
  | Png_destroy_write_struct
  | Png_set_benign_errors bool
  | Png_set_option_skip_sRGB_check_profile
  | Png_set_read_fn
  | Png_set_write_fn
  | Png_set_sig_bytes int
  | Png_read_info
  | Png_set_expand
  | Png_set_tRNS_to_alpha
  | Png_set_palette_to_rgb
  | Png_set_swap
  | Png_set_interlace_handling
  | Png_set_gamma real real
  | Png_read_update_info
  | Png_read_rows
  | Png_read_end
  | Png_set_compression_level int
  | Png_set_IHDR "32 word" "32 word" int int int int int
  | Png_set_sRGB_gAMA_and_cHRM int
  | Png_set_cHRM chromaticity chromaticity chromaticity chromaticity
  | Png_set_gAMA real
  | Png_set_iCCP string int "byte list" int
  | Png_set_bKGD png_color_16
  | Png_write_info
  | Png_write_rows
  | Png_write_end
  | Gegl_buffer_get rectangle "'b option"
  | Gegl_buffer_set rectangle "'b option"

fun is_libpng :: "'b event \<Rightarrow> bool" where
  "is_libpng (Gegl_buffer_get r f) = False"
| "is_libpng (Gegl_buffer_set r f) = False"
| "is_libpng e = True"

text \<open>The calls that set a colour chunk of the file to write, and the gamma request.\<close>

fun is_color_chunk :: "'b event \<Rightarrow> bool" where
  "is_color_chunk (Png_set_sRGB_gAMA_and_cHRM intent) = True"
| "is_color_chunk (Png_set_cHRM wp red green blue) = True"
| "is_color_chunk (Png_set_gAMA g) = True"
| "is_color_chunk (Png_set_iCCP name compression profile len) = True"
| "is_color_chunk e = False"

fun is_set_gamma :: "'b event \<Rightarrow> bool" where
  "is_set_gamma (Png_set_gamma screen file) = True"
| "is_set_gamma e = False"

datatype io_request = Write_data "byte list" | Flush_data

text \<open>
  libpng's behaviour, as a parameter. \<open>png_error_in h\<close> says that the last call of the
  history \<open>h\<close> ends in \<^verbatim>\<open>png_error\<close>, which the code receives as a \<^verbatim>\<open>longjmp\<close> to its
  \<^verbatim>\<open>setjmp\<close>. \<open>png_read_requests h\<close> are the lengths that call asks of the read
  callback, \<open>png_write_requests h\<close> the buffers and flushes it hands to the write and flush
  callbacks. \<open>png_parsed\<close> is the header libpng reports from the buffers the read callback
  delivered, \<open>png_interlace_passes\<close> the result of \<^verbatim>\<open>png_set_interlace_handling\<close>.
\<close>

record 'b libpng =
  png_create_read_struct_ok :: bool
  png_create_write_struct_ok :: bool
  png_create_info_struct_ok :: bool
  png_error_in :: "'b event list \<Rightarrow> bool"
  png_read_requests :: "'b event list \<Rightarrow> nat list"
  png_write_requests :: "'b event list \<Rightarrow> io_request list"
  png_parsed :: "byte list list \<Rightarrow> png_info"
  png_interlace_passes :: int

text \<open>
  Running a sequence of calls under \<^verbatim>\<open>setjmp\<close>: each call is recorded, its callbacks run
  (\<open>cb\<close>), and the first call that raises stops the sequence. The result says whether the
  \<^verbatim>\<open>longjmp\<close> happened.
\<close>

fun png_run ::
  "('b event list \<Rightarrow> bool) \<Rightarrow> ('b event list \<Rightarrow> 'io \<Rightarrow> 'io) \<Rightarrow> 'b event list \<Rightarrow> 'io
     \<Rightarrow> 'b event list \<Rightarrow> bool \<times> 'b event list \<times> 'io" where
  "png_run raises cb hist io [] = (False, hist, io)"
| "png_run raises cb hist io (c # cs) =
     (if is_libpng c then
        (if raises (hist @ [c]) then (True, hist @ [c], cb (hist @ [c]) io)
         else png_run raises cb (hist @ [c]) (cb (hist @ [c]) io) cs)
      else png_run raises cb (hist @ [c]) io cs)"

text \<open>
  libpng validates the header it parses (\<^verbatim>\<open>png_check_IHDR\<close>): \<^verbatim>\<open>png_read_info\<close> ends in
  \<^verbatim>\<open>png_error\<close> ("Invalid IHDR data") when the bit depth of the IHDR chunk is not 1, 2,
  4, 8 or 16. A libpng parameter with this behaviour satisfies \<open>libpng_checks_ihdr\<close>.
\<close>

definition libpng_checks_ihdr :: "'b libpng \<Rightarrow> bool" where
  "libpng_checks_ihdr L \<longleftrightarrow>
     (\<forall>h d. ihdr_bit_depth (png_parsed L d) \<notin> {1, 2, 4, 8, 16}
              \<longrightarrow> png_error_in L (h @ [Png_read_info]))"

text \<open>The signature test of libpng: zero exactly when the bytes compared are equal.\<close>

definition png_signature :: "byte list" where
  "png_signature = [137, 80, 78, 71, 13, 10, 26, 10]"

definition png_sig_cmp :: "byte list \<Rightarrow> nat \<Rightarrow> nat \<Rightarrow> int" where
  "png_sig_cmp sig start num_to_check =
     (if take num_to_check (drop start sig) = take num_to_check (drop start png_signature)
      then 0 else 1)"

datatype 'a outcome = Returns 'a | Aborts

section \<open>png-load.c: the loader\<close>

text \<open>
  \<^verbatim>\<open>read_fn\<close> (png-load.c, lines 59-71), the read callback given to libpng. It returns
  \<^verbatim>\<open>void\<close>: the caller gets the buffer and nothing else. The state is the stream and
  the lines printed on standard error.
\<close>

definition read_fn :: "'s gio \<Rightarrow> 's \<times> string list \<Rightarrow> nat \<Rightarrow> ('s \<times> string list) \<times> byte list" where
  "read_fn G io len =
     (case g_input_stream_read_all G (fst io) len of
        (stream', buffer, None) \<Rightarrow> ((stream', snd io), buffer)
      | (stream', buffer, Some message) \<Rightarrow>
          ((stream', snd io @ [''gegl:load-png read_fn: '' @ message]), buffer))"

text \<open>
  \<^verbatim>\<open>check_valid_png_header\<close> (png-load.c, lines 79-112): the stream after the read,
  the boolean result and the error set. \<open>Aborts\<close> is the failed \<^verbatim>\<open>g_assert\<close>.
\<close>

definition check_valid_png_header :: "'s gio \<Rightarrow> 's \<Rightarrow> ('s \<times> bool \<times> gerror option) outcome" where
  "check_valid_png_header G stream =
     (let hdr_size = 8 in
      case g_input_stream_read G stream hdr_size of
        (stream', Inl e) \<Rightarrow> Returns (stream', False, Some (Gio_error e))
      | (stream', Inr header) \<Rightarrow>
          if length header < hdr_size then
            Returns (stream', False, Some (Load_png_error LOAD_PNG_TOO_SHORT))
          else if length header > hdr_size then Aborts
          else if png_sig_cmp header 0 hdr_size \<noteq> 0 then
            Returns (stream', False, Some (Load_png_error LOAD_PNG_WRONG_HEADER))
          else Returns (stream', True, None))"


text \<open>
  The header block of \<^verbatim>\<open>gegl_buffer_import_png\<close> (png-load.c, lines 275-364): from what
  \<^verbatim>\<open>png_get_IHDR\<close> and \<^verbatim>\<open>png_get_valid\<close> report it chooses the transformations asked of
  libpng, the bytes per pixel, the colour space and the pixel format. \<open>Inl\<close> is the
  \<^verbatim>\<open>default\<close> branch of the switch ("color type mismatch"), with the calls made before
  it. \<open>little_endian\<close> is the compile-time test \<^verbatim>\<open>BYTE_ORDER == LITTLE_ENDIAN\<close>.
  Its parts: \<open>expanded_bit_depth\<close> is the bit depth after lines 292-296,
  \<open>alpha_color_type\<close> the colour type after lines 298-302, \<open>head_events\<close> the two
  calls made there, \<open>color_type_bpp\<close> the switch on the colour type (lines 304-328,
  \<open>None\<close> its \<^verbatim>\<open>default\<close> branch), \<open>gamma_events\<close> the gamma request of lines
  349-361 and \<open>transform_events\<close> all the calls of the block in order.
\<close>

definition color_type_bpp :: "int \<Rightarrow> int option" where
  "color_type_bpp color_type =
     (if color_type = PNG_COLOR_TYPE_GRAY then Some 1
      else if color_type = PNG_COLOR_TYPE_GRAY_ALPHA then Some 2
      else if color_type = PNG_COLOR_TYPE_RGB then Some 3
      else if color_type = PNG_COLOR_TYPE_RGB_ALPHA then Some 4
      else if color_type = (PNG_COLOR_TYPE_PALETTE OR PNG_COLOR_MASK_ALPHA) then Some 4
      else if color_type = PNG_COLOR_TYPE_PALETTE then Some 3
      else None)"

record 'b decode_setup =
  su_events :: "'b event list"
  su_bit_depth :: int
  su_color_type :: int
  su_bpp :: int
  su_space :: "'b option"
  su_format :: "'b option"
  su_number_of_passes :: int

definition expanded_bit_depth :: "png_info \<Rightarrow> int" where
  "expanded_bit_depth info =
     (if ihdr_color_type info = PNG_COLOR_TYPE_GRAY \<and> ihdr_bit_depth info < 8 then 8
      else ihdr_bit_depth info)"

definition alpha_color_type :: "png_info \<Rightarrow> int" where
  "alpha_color_type info =
     (if png_valid_tRNS info then ihdr_color_type info OR PNG_COLOR_MASK_ALPHA
      else ihdr_color_type info)"

definition head_events :: "png_info \<Rightarrow> 'b event list" where
  "head_events info =
     (if ihdr_color_type info = PNG_COLOR_TYPE_GRAY \<and> ihdr_bit_depth info < 8
      then [Png_set_expand] else [])
     @ (if png_valid_tRNS info then [Png_set_tRNS_to_alpha] else [])"

definition gamma_events :: "'b option \<Rightarrow> png_info \<Rightarrow> 'b event list" where
  "gamma_events space info =
     (if space = None then
        (case png_get_gAMA info of
           Some gamma \<Rightarrow> [Png_set_gamma 2.2 gamma]
         | None \<Rightarrow> [Png_set_gamma 2.2 0.45455])
      else [])"

definition transform_events :: "'b babl_api \<Rightarrow> bool \<Rightarrow> png_info \<Rightarrow> 'b event list" where
  "transform_events B little_endian info =
     head_events info
     @ (if alpha_color_type info = PNG_COLOR_TYPE_PALETTE then [Png_set_palette_to_rgb] else [])
     @ (if little_endian \<and> expanded_bit_depth info = 16 then [Png_set_swap] else [])
     @ (if ihdr_interlace_type info = PNG_INTERLACE_ADAM7
        then [Png_set_interlace_handling] else [])
     @ gamma_events (gegl_png_space B info) info
     @ [Png_read_update_info]"

definition import_setup ::
  "'b babl_api \<Rightarrow> bool \<Rightarrow> int \<Rightarrow> png_info \<Rightarrow> 'b option \<Rightarrow> 'b event list + 'b decode_setup" where
  "import_setup B little_endian passes info format =
     (case color_type_bpp (alpha_color_type info) of
        None \<Rightarrow> Inl (head_events info)
      | Some bpp \<Rightarrow>
          Inr \<lparr>
            su_events = transform_events B little_endian info,
            su_bit_depth = expanded_bit_depth info,
            su_color_type = alpha_color_type info,
            su_bpp = (if expanded_bit_depth info = 16 then 2 * bpp else bpp),
            su_space = gegl_png_space B info,
            su_format = (case format of
                           None \<Rightarrow> get_babl_format B (expanded_bit_depth info)
                                     (alpha_color_type info) (gegl_png_space B info)
                         | Some f \<Rightarrow> Some f),
            su_number_of_passes =
              (if ihdr_interlace_type info = PNG_INTERLACE_ADAM7 then passes else 1) \<rparr>)"

text \<open>
  The row loop (png-load.c, lines 368-386): for every pass and every row, the row is read
  back from the buffer on later passes, decoded, and stored. The pixel bytes themselves
  are not modelled.
\<close>

definition import_rows :: "32 word \<Rightarrow> 32 word \<Rightarrow> int \<Rightarrow> 'b option \<Rightarrow> 'b event list" where
  "import_rows w h number_of_passes format =
     concat (map (\<lambda>pass.
       concat (map (\<lambda>i.
         (if pass \<noteq> 0
          then [Gegl_buffer_get (0, sint (word_of_nat i :: 32 word), sint w, 1) format]
          else [])
         @ [Png_read_rows,
            Gegl_buffer_set (0, sint (word_of_nat i :: 32 word), sint w, 1) format])
         [0..<unat h]))
       [0..<nat number_of_passes])"

text \<open>The read callback, run for every length libpng asks for during one call.\<close>

definition reader_cb ::
  "'s gio \<Rightarrow> 'b libpng \<Rightarrow> 'b event list \<Rightarrow> ('s \<times> string list) \<times> byte list list
     \<Rightarrow> ('s \<times> string list) \<times> byte list list" where
  "reader_cb G L hist st =
     foldl (\<lambda>(io, delivered) len.
              case read_fn G io len of (io', buffer) \<Rightarrow> (io', delivered @ [buffer]))
           st (png_read_requests L hist)"

record ('s, 'b) import_result =
  ir_ret :: int
  ir_err :: "gerror option"
  ir_size :: "(32 word \<times> 32 word) option"
  ir_format :: "'b option"
  ir_stream :: "'s option"
  ir_stderr :: "string list"
  ir_events :: "'b event list"

text \<open>
  \<^verbatim>\<open>gegl_buffer_import_png\<close> (png-load.c, lines 215-395). \<open>ir_size\<close> is what is stored
  through \<^verbatim>\<open>ret_width\<close> and \<^verbatim>\<open>ret_height\<close>, \<open>ir_format\<close> the format the rows are stored
  in, \<open>ir_err\<close> the \<^verbatim>\<open>GError\<close> set.
\<close>

definition gegl_buffer_import_png ::
  "'b babl_api \<Rightarrow> 's gio \<Rightarrow> 'b libpng \<Rightarrow> bool \<Rightarrow> 's option \<Rightarrow> 'b option
     \<Rightarrow> ('s, 'b) import_result outcome" where
  "gegl_buffer_import_png B G L little_endian stream format =
     (case stream of
        None \<Rightarrow>
          Returns \<lparr> ir_ret = - 1, ir_err = None, ir_size = None, ir_format = format,
                    ir_stream = None, ir_stderr = [], ir_events = [] \<rparr>
      | Some s \<Rightarrow>
         (case check_valid_png_header G s of
            Aborts \<Rightarrow> Aborts
          | Returns (s1, ok, e) \<Rightarrow>
              if \<not> ok then
                Returns \<lparr> ir_ret = - 1, ir_err = e, ir_size = None, ir_format = format,
                          ir_stream = Some s1, ir_stderr = [], ir_events = [] \<rparr>
              else if \<not> png_create_read_struct_ok L then
                Returns \<lparr> ir_ret = - 1, ir_err = None, ir_size = None, ir_format = format,
                          ir_stream = Some s1, ir_stderr = [],
                          ir_events = [Png_create_read_struct] \<rparr>
              else if \<not> png_create_info_struct_ok L then
                Returns \<lparr> ir_ret = - 1, ir_err = None, ir_size = None, ir_format = format,
                          ir_stream = Some s1, ir_stderr = [],
                          ir_events = [Png_create_read_struct, Png_create_info_struct,
                                       Png_destroy_read_struct] \<rparr>
              else
                (case png_run (png_error_in L) (reader_cb G L)
                        [Png_create_read_struct, Png_create_info_struct,
                         Png_set_benign_errors True, Png_set_option_skip_sRGB_check_profile]
                        ((s1, []), [])
                        [Png_set_read_fn, Png_set_sig_bytes 8, Png_read_info] of
                   (True, h1, ((s2, printed), d)) \<Rightarrow>
                     Returns \<lparr> ir_ret = - 1, ir_err = None, ir_size = None,
                               ir_format = format, ir_stream = Some s2, ir_stderr = printed,
                               ir_events = h1 @ [Png_destroy_read_struct] \<rparr>
                 | (False, h1, io1) \<Rightarrow>
                     (let info = png_parsed L (snd io1);
                          w = ihdr_width info; h = ihdr_height info
                      in
                      case import_setup B little_endian (png_interlace_passes L) info format of
                        Inl evs \<Rightarrow>
                          (case png_run (png_error_in L) (reader_cb G L) h1 io1 evs of
                             (jumped, h2, ((s2, printed), d)) \<Rightarrow>
                               Returns \<lparr> ir_ret = - 1, ir_err = None, ir_size = Some (w, h),
                                         ir_format = format, ir_stream = Some s2,
                                         ir_stderr = printed,
                                         ir_events = h2 @ [Png_destroy_read_struct] \<rparr>)
                      | Inr su \<Rightarrow>
                          (case png_run (png_error_in L) (reader_cb G L) h1 io1
                                  (su_events su
                                   @ import_rows w h (su_number_of_passes su) (su_format su)
                                   @ [Png_read_end]) of
                             (jumped, h2, ((s2, printed), d)) \<Rightarrow>
                               Returns \<lparr> ir_ret = (if jumped then - 1 else 0), ir_err = None,
                                         ir_size = Some (w, h), ir_format = su_format su,
                                         ir_stream = Some s2, ir_stderr = printed,
                                         ir_events = h2 @ [Png_destroy_read_struct] \<rparr>)))))"

text \<open>
  \<^verbatim>\<open>query_png\<close> (png-load.c, lines 399-475), the header-only inspection; \<open>ir_format\<close>
  is what it stores through \<^verbatim>\<open>format\<close>.
\<close>

definition query_png ::
  "'b babl_api \<Rightarrow> 's gio \<Rightarrow> 'b libpng \<Rightarrow> 's option \<Rightarrow> ('s, 'b) import_result outcome" where
  "query_png B G L stream =
     (case stream of
        None \<Rightarrow>
          Returns \<lparr> ir_ret = - 1, ir_err = None, ir_size = None, ir_format = None,
                    ir_stream = None, ir_stderr = [], ir_events = [] \<rparr>
      | Some s \<Rightarrow>
         (case check_valid_png_header G s of
            Aborts \<Rightarrow> Aborts
          | Returns (s1, ok, e) \<Rightarrow>
              if \<not> ok then
                Returns \<lparr> ir_ret = - 1, ir_err = e, ir_size = None, ir_format = None,
                          ir_stream = Some s1, ir_stderr = [], ir_events = [] \<rparr>
              else if \<not> png_create_read_struct_ok L then
                Returns \<lparr> ir_ret = - 1, ir_err = None, ir_size = None, ir_format = None,
                          ir_stream = Some s1, ir_stderr = [],
                          ir_events = [Png_create_read_struct] \<rparr>
              else if \<not> png_create_info_struct_ok L then
                Returns \<lparr> ir_ret = - 1, ir_err = None, ir_size = None, ir_format = None,
                          ir_stream = Some s1, ir_stderr = [],
                          ir_events = [Png_create_read_struct, Png_create_info_struct,
                                       Png_destroy_read_struct] \<rparr>
              else
                (case png_run (png_error_in L) (reader_cb G L)
                        [Png_create_read_struct, Png_create_info_struct,
                         Png_set_benign_errors True, Png_set_option_skip_sRGB_check_profile]
                        ((s1, []), [])
                        [Png_set_read_fn, Png_set_sig_bytes 8, Png_read_info] of
                   (True, h1, ((s2, printed), d)) \<Rightarrow>
                     Returns \<lparr> ir_ret = - 1, ir_err = None, ir_size = None,
                               ir_format = None, ir_stream = Some s2, ir_stderr = printed,
                               ir_events = h1 @ [Png_destroy_read_struct] \<rparr>
                 | (False, h1, ((s2, printed), d)) \<Rightarrow>
                     (let info = png_parsed L d;
                          space = gegl_png_space B info;
                          f = get_babl_format B (ihdr_bit_depth info)
                                (alpha_color_type info) space
                      in
                      Returns \<lparr> ir_ret = (if f = None then - 1 else 0), ir_err = None,
                                ir_size = Some (ihdr_width info, ihdr_height info),
                                ir_format = f, ir_stream = Some s2, ir_stderr = printed,
                                ir_events = h1 @ [Png_destroy_read_struct] \<rparr>))))"


section \<open>png-save.c: the saver\<close>

text \<open>
  \<^verbatim>\<open>write_fn\<close> and \<^verbatim>\<open>flush_fn\<close> (png-save.c, lines 45-70), the callbacks given to
  libpng. Both return \<^verbatim>\<open>void\<close>; the state is the stream and the lines printed on
  standard error.
\<close>

definition write_fn :: "'s gio \<Rightarrow> 's \<times> string list \<Rightarrow> byte list \<Rightarrow> 's \<times> string list" where
  "write_fn G io buffer =
     (case g_output_stream_write_all G (fst io) buffer of
        (stream', None) \<Rightarrow> (stream', snd io)
      | (stream', Some message) \<Rightarrow>
          (stream', snd io @ [''gegl:save-png write_fn: '' @ message]))"

definition flush_fn :: "'s gio \<Rightarrow> 's \<times> string list \<Rightarrow> 's \<times> string list" where
  "flush_fn G io =
     (case g_output_stream_flush G (fst io) of
        (stream', None) \<Rightarrow> (stream', snd io)
      | (stream', Some message) \<Rightarrow>
          (stream', snd io @ [''gegl:save-png flush_fn: '' @ message]))"

text \<open>The two callbacks, run for everything libpng hands out during one call.\<close>

definition writer_cb ::
  "'s gio \<Rightarrow> 'b libpng \<Rightarrow> 'b event list \<Rightarrow> 's \<times> string list \<Rightarrow> 's \<times> string list" where
  "writer_cb G L hist io =
     foldl (\<lambda>io r. case r of Write_data buffer \<Rightarrow> write_fn G io buffer
                            | Flush_data \<Rightarrow> flush_fn G io)
           io (png_write_requests L hist)"

text \<open>
  The colour chunks \<^verbatim>\<open>export_png\<close> asks for (png-save.c, lines 145-203), for the PNG
  colour type chosen and the space of the input format.
\<close>

definition export_color_events :: "'b babl_api \<Rightarrow> int \<Rightarrow> 'b option \<Rightarrow> 'b event list" where
  "export_color_events B png_color_type space =
     (if png_color_type = PNG_COLOR_TYPE_RGB \<or> png_color_type = PNG_COLOR_TYPE_RGB_ALPHA then
        (case space of
           None \<Rightarrow> [Png_set_sRGB_gAMA_and_cHRM PNG_sRGB_INTENT_RELATIVE]
         | Some sp \<Rightarrow>
             if sp = babl_space B ''sRGB'' then
               [Png_set_sRGB_gAMA_and_cHRM PNG_sRGB_INTENT_RELATIVE]
             else
               (let is_cmyk = babl_space_is_cmyk B sp in
                case babl_space_get B sp of
                  (wp, red, green, blue, trc0, trc1, trc2) \<Rightarrow>
                    [Png_set_cHRM wp red green blue]
                    @ [Png_set_gAMA
                         (if trc0 = babl_trc B ''sRGB'' \<or> trc0 = babl_trc B ''2.2'' \<or> is_cmyk
                          then 2.2
                          else if trc0 = babl_trc B ''linear'' then 1.0
                          else 2.2)]
                    @ (if \<not> is_cmyk then
                         (let name = (if length (babl_get_name B sp) > 10 then ''GEGL''
                                      else babl_get_name B sp)
                          in case babl_space_get_icc B sp of
                               Some (icc_profile, icc_len) \<Rightarrow>
                                 [Png_set_iCCP name 0 icc_profile icc_len]
                             | None \<Rightarrow> [])
                       else [])))
      else [])"

text \<open>
  The local \<^verbatim>\<open>white\<close> when \<^verbatim>\<open>png_set_bKGD\<close> is called (png-save.c, lines 90, 150-152
  and 202).
\<close>

definition export_white :: "'b babl_api \<Rightarrow> int \<Rightarrow> 'b option \<Rightarrow> png_color_16" where
  "export_white B png_color_type space =
     (let uninitialised = \<lparr> c16_index = None, c16_red = None, c16_green = None,
                            c16_blue = None, c16_gray = None \<rparr>
      in
      if png_color_type = PNG_COLOR_TYPE_RGB \<or> png_color_type = PNG_COLOR_TYPE_RGB_ALPHA then
        (if space = None \<or> space = Some (babl_space B ''sRGB'')
         then uninitialised \<lparr> c16_red := Some 0xff, c16_blue := Some 0xff,
                               c16_green := Some 0xff \<rparr>
         else uninitialised)
      else uninitialised \<lparr> c16_gray := Some 0xff \<rparr>)"

text \<open>
  The PNG colour type and bit depth chosen for the input format (png-save.c,
  lines 102-134), with the format string.
\<close>

definition export_color_type :: "'b babl_api \<Rightarrow> 'b \<Rightarrow> int \<times> string" where
  "export_color_type B babl =
     (if babl_format_has_alpha B babl then
        (if babl_format_get_n_components B babl \<noteq> 2
         then (PNG_COLOR_TYPE_RGB_ALPHA, ''R'G'B'A '')
         else (PNG_COLOR_TYPE_GRAY_ALPHA, ''Y'A ''))
      else
        (if babl_format_get_n_components B babl \<noteq> 1
         then (PNG_COLOR_TYPE_RGB, ''R'G'B' '')
         else (PNG_COLOR_TYPE_GRAY, ''Y' '')))"

text \<open>
  The calls of \<^verbatim>\<open>export_png\<close> after its \<^verbatim>\<open>setjmp\<close> (png-save.c, lines 139-235), in
  order. \<open>result\<close> is the rectangle \<open>(x, y, width, height)\<close> to save.
\<close>

definition export_png_calls ::
  "'b babl_api \<Rightarrow> bool \<Rightarrow> 'b \<Rightarrow> rectangle \<Rightarrow> int \<Rightarrow> int \<Rightarrow> 'b event list" where
  "export_png_calls B little_endian babl result compression bit_depth0 =
     (case result of (src_x, src_y, result_width, result_height) \<Rightarrow>
      let space = babl_format_get_space B babl;
          width = (word_of_int result_width :: 32 word);
          height = (word_of_int result_height :: 32 word);
          bit_depth = (if bit_depth0 \<noteq> 16 then 8 else bit_depth0);
          png_color_type = fst (export_color_type B babl);
          format_string = snd (export_color_type B babl)
                          @ (if bit_depth = 16 then ''u16'' else ''u8'');
          format = babl_format_with_space B format_string space
      in
      [Png_set_compression_level compression,
       Png_set_IHDR width height bit_depth png_color_type
         PNG_INTERLACE_NONE PNG_COMPRESSION_TYPE_BASE PNG_FILTER_TYPE_DEFAULT]
      @ export_color_events B png_color_type space
      @ [Png_set_bKGD (export_white B png_color_type space), Png_write_info]
      @ (if little_endian \<and> bit_depth > 8 then [Png_set_swap] else [])
      @ concat (map (\<lambda>i. [Gegl_buffer_get (src_x, src_y + int i, sint width, 1) (Some format),
                           Png_write_rows])
                    [0..<unat height])
      @ [Png_write_end])"

text \<open>
  \<^verbatim>\<open>export_png\<close> (png-save.c, lines 78-240): the result is \<^verbatim>\<open>-1\<close> after a
  \<^verbatim>\<open>longjmp\<close> and \<^verbatim>\<open>0\<close> otherwise. \<open>hist\<close> are the calls made on the writer before.
\<close>

definition export_png ::
  "'b babl_api \<Rightarrow> 's gio \<Rightarrow> 'b libpng \<Rightarrow> bool \<Rightarrow> 'b event list \<Rightarrow> 's \<times> string list
     \<Rightarrow> 'b \<Rightarrow> rectangle \<Rightarrow> int \<Rightarrow> int \<Rightarrow> int \<times> 'b event list \<times> ('s \<times> string list)" where
  "export_png B G L little_endian hist io babl result compression bit_depth =
     (case png_run (png_error_in L) (writer_cb G L) hist io
             (export_png_calls B little_endian babl result compression bit_depth) of
        (jumped, hist', io') \<Rightarrow> (if jumped then - 1 else 0, hist', io'))"

record ('s, 'b) save_result =
  sr_status :: bool
  sr_stream :: "'s option"
  sr_stderr :: "string list"
  sr_events :: "'b event list"

text \<open>
  \<^verbatim>\<open>process\<close> of png-save.c (lines 242-296). \<open>opened\<close> is what
  \<^verbatim>\<open>gegl_gio_open_output_stream\<close> returned (\<open>None\<close> for \<^verbatim>\<open>NULL\<close>), \<open>babl\<close> the format of
  the input buffer, \<open>compression\<close> and \<open>bitdepth\<close> the two properties of the operation.
\<close>

definition process_save ::
  "'b babl_api \<Rightarrow> 's gio \<Rightarrow> 'b libpng \<Rightarrow> bool \<Rightarrow> 's option \<Rightarrow> 'b \<Rightarrow> rectangle \<Rightarrow> int \<Rightarrow> int
     \<Rightarrow> ('s, 'b) save_result" where
  "process_save B G L little_endian opened babl result compression bitdepth =
     (if \<not> png_create_write_struct_ok L then
        \<lparr> sr_status = False, sr_stream = None, sr_stderr = [],
          sr_events = [Png_create_write_struct] \<rparr>
      else if \<not> png_create_info_struct_ok L then
        \<lparr> sr_status = False, sr_stream = None, sr_stderr = [],
          sr_events = [Png_create_write_struct, Png_create_info_struct,
                       Png_destroy_write_struct] \<rparr>
      else
        (case opened of
           None \<Rightarrow>
             \<lparr> sr_status = False, sr_stream = None, sr_stderr = [],
               sr_events = [Png_create_write_struct, Png_create_info_struct,
                            Png_destroy_write_struct] \<rparr>
         | Some stream \<Rightarrow>
             (case export_png B G L little_endian
                     [Png_create_write_struct, Png_create_info_struct, Png_set_write_fn]
                     (stream, []) babl result compression bitdepth of
                (r, hist, (stream', printed)) \<Rightarrow>
                  \<lparr> sr_status = (r = 0), sr_stream = Some stream', sr_stderr = printed,
                    sr_events = hist @ [Png_destroy_write_struct] \<rparr>)))"


section \<open>Concrete collaborators\<close>

text \<open>
  A term model of babl: an object is the call that made it. It is used to run the
  definitions above on concrete images.
\<close>

datatype babl_obj =
    Space string
  | Trc string
  | Trc_gamma real
  | Icc_space "byte list" bool
  | Rgb_space chromaticity chromaticity chromaticity chromaticity babl_obj babl_obj babl_obj
  | Format string "babl_obj option"

definition term_babl :: "babl_obj babl_api" where
  "term_babl = \<lparr>
     babl_space = Space,
     babl_trc = Trc,
     babl_trc_gamma = Trc_gamma,
     babl_space_from_icc =
       (\<lambda>profile len intent. if profile = [] then None else Some (Icc_space profile False)),
     babl_space_from_chromaticities =
       (\<lambda>name wp red green blue t0 t1 t2 flags. Some (Rgb_space wp red green blue t0 t1 t2)),
     babl_format_with_space = Format,
     babl_format_get_space = (\<lambda>f. case f of Format s sp \<Rightarrow> sp | _ \<Rightarrow> None),
     babl_format_has_alpha = (\<lambda>f. case f of Format s sp \<Rightarrow> CHR ''A'' \<in> set s | _ \<Rightarrow> False),
     babl_format_get_n_components =
       (\<lambda>f. case f of Format s sp \<Rightarrow> int (length (filter (\<lambda>c. c \<in> set ''RGBYA'') s))
                     | _ \<Rightarrow> 0),
     babl_space_is_cmyk = (\<lambda>sp. case sp of Icc_space p cmyk \<Rightarrow> cmyk | _ \<Rightarrow> False),
     babl_space_get =
       (\<lambda>sp. case sp of
                Rgb_space wp red green blue t0 t1 t2 \<Rightarrow> (wp, red, green, blue, t0, t1, t2)
              | _ \<Rightarrow> ((0.3127, 0.3290), (0.6400, 0.3300), (0.3000, 0.6000), (0.1500, 0.0600),
                       Trc ''sRGB'', Trc ''sRGB'', Trc ''sRGB'')),
     babl_get_name = (\<lambda>sp. case sp of Space n \<Rightarrow> n | _ \<Rightarrow> ''unnamed space''),
     babl_space_get_icc =
       (\<lambda>sp. case sp of Icc_space p cmyk \<Rightarrow> Some (p, int (length p)) | _ \<Rightarrow> None) \<rparr>"

text \<open>
  Two streams over a byte list: one in memory that never fails, and one on which every
  operation fails.
\<close>

definition memory_gio :: "byte list gio" where
  "memory_gio = \<lparr>
     g_input_stream_read = (\<lambda>s n. (drop n s, Inr (take n s))),
     g_input_stream_read_all = (\<lambda>s n. (drop n s, take n s, None)),
     g_output_stream_write_all = (\<lambda>s buffer. (s @ buffer, None)),
     g_output_stream_flush = (\<lambda>s. (s, None)) \<rparr>"

definition failing_gio :: "byte list gio" where
  "failing_gio = \<lparr>
     g_input_stream_read = (\<lambda>s n. (s, Inl ''Input/output error'')),
     g_input_stream_read_all = (\<lambda>s n. (s, [], Some ''Input/output error'')),
     g_output_stream_write_all = (\<lambda>s buffer. (s, Some ''No space left on device'')),
     g_output_stream_flush = (\<lambda>s. (s, Some ''No space left on device'')) \<rparr>"

text \<open>
  A libpng that never raises, reports the given header, reads the first chunk in two
  requests and writes one buffer for the header, one for each row and one for the end.
\<close>

definition quiet_libpng :: "png_info \<Rightarrow> 'b libpng" where
  "quiet_libpng info = \<lparr>
     png_create_read_struct_ok = True,
     png_create_write_struct_ok = True,
     png_create_info_struct_ok = True,
     png_error_in = (\<lambda>h. False),
     png_read_requests = (\<lambda>h. if last h = Png_read_info then [8, 17] else []),
     png_write_requests =
       (\<lambda>h. if last h = Png_write_info then [Write_data png_signature]
            else if last h = Png_write_rows then [Write_data [0]]
            else if last h = Png_write_end then [Write_data [73, 69, 78, 68]]
            else []),
     png_parsed = (\<lambda>delivered. info),
     png_interlace_passes = 7 \<rparr>"

text \<open>The same libpng, raising in \<^verbatim>\<open>png_read_info\<close> on a header of invalid bit depth.\<close>

definition checking_libpng :: "png_info \<Rightarrow> 'b libpng" where
  "checking_libpng info =
     (quiet_libpng info) \<lparr>
       png_error_in :=
         (\<lambda>h. last h = Png_read_info \<and> ihdr_bit_depth info \<notin> {1, 2, 4, 8, 16}) \<rparr>"

definition plain_info :: png_info where
  "plain_info = \<lparr>
     ihdr_width = 1, ihdr_height = 1, ihdr_bit_depth = 8,
     ihdr_color_type = PNG_COLOR_TYPE_RGB, ihdr_interlace_type = PNG_INTERLACE_NONE,
     png_get_iCCP = None, png_valid_sRGB = False, png_get_gAMA = None,
     png_get_cHRM = None, png_valid_tRNS = False \<rparr>"


section \<open>Facts about the header block\<close>

lemma import_setup_Inr:
  assumes "import_setup B le passes info format = Inr su"
  shows "su_events su = transform_events B le info"
    and "su_bit_depth su = expanded_bit_depth info"
    and "su_space su = gegl_png_space B info"
    and "su_format su = (case format of
                           None \<Rightarrow> get_babl_format B (expanded_bit_depth info)
                                     (alpha_color_type info) (gegl_png_space B info)
                         | Some f \<Rightarrow> Some f)"
proof -
  obtain bpp where "color_type_bpp (alpha_color_type info) = Some bpp"
    using assms by (cases "color_type_bpp (alpha_color_type info)") (simp_all add: import_setup_def)
  then have "import_setup B le passes info format = Inr \<lparr>
            su_events = transform_events B le info,
            su_bit_depth = expanded_bit_depth info,
            su_color_type = alpha_color_type info,
            su_bpp = (if expanded_bit_depth info = 16 then 2 * bpp else bpp),
            su_space = gegl_png_space B info,
            su_format = (case format of
                           None \<Rightarrow> get_babl_format B (expanded_bit_depth info)
                                     (alpha_color_type info) (gegl_png_space B info)
                         | Some f \<Rightarrow> Some f),
            su_number_of_passes =
              (if ihdr_interlace_type info = PNG_INTERLACE_ADAM7 then passes else 1) \<rparr>"
    by (simp add: import_setup_def)
  with assms have su: "su = \<lparr>
            su_events = transform_events B le info,
            su_bit_depth = expanded_bit_depth info,
            su_color_type = alpha_color_type info,
            su_bpp = (if expanded_bit_depth info = 16 then 2 * bpp else bpp),
            su_space = gegl_png_space B info,
            su_format = (case format of
                           None \<Rightarrow> get_babl_format B (expanded_bit_depth info)
                                     (alpha_color_type info) (gegl_png_space B info)
                         | Some f \<Rightarrow> Some f),
            su_number_of_passes =
              (if ihdr_interlace_type info = PNG_INTERLACE_ADAM7 then passes else 1) \<rparr>"
    by simp
  show "su_events su = transform_events B le info" by (subst su) simp
  show "su_bit_depth su = expanded_bit_depth info" by (subst su) simp
  show "su_space su = gegl_png_space B info" by (subst su) simp
  show "su_format su = (case format of
                           None \<Rightarrow> get_babl_format B (expanded_bit_depth info)
                                     (alpha_color_type info) (gegl_png_space B info)
                         | Some f \<Rightarrow> Some f)" by (subst su) simp
qed

lemma head_events_no_gamma: "filter is_set_gamma (head_events info) = []"
  by (simp add: head_events_def)

lemma gamma_events_gamma: "filter is_set_gamma (gamma_events space info) = gamma_events space info"
  by (cases "png_get_gAMA info") (simp_all add: gamma_events_def)

lemma transform_events_gamma:
  "filter is_set_gamma (transform_events B le info) = gamma_events (gegl_png_space B info) info"
  by (simp add: transform_events_def head_events_no_gamma gamma_events_gamma)


section \<open>Colour-space resolution on decode\<close>

text \<open>
  Claim C1. When libpng reports an iCCP chunk and babl parses its profile, the colour
  space resolved is the one babl derived from that profile, whatever the sRGB flag, the
  gAMA chunk and the cHRM chunk are: in particular with the sRGB flag set as well.
\<close>

theorem gegl_png_space_icc_wins:
  assumes "png_get_iCCP info = Some (name, compression_type, profile, proflen)"
    and "babl_space_from_icc B profile (sint proflen) BABL_ICC_INTENT_RELATIVE_COLORIMETRIC
           = Some icc_space"
  shows "gegl_png_space B info = Some icc_space
       \<and> gegl_png_space B (info\<lparr> png_valid_sRGB := srgb, png_get_gAMA := gama,
                                  png_get_cHRM := chrm \<rparr>) = Some icc_space"
  using assms by (simp add: gegl_png_space_def)

text \<open>An image with both an iCCP chunk and the sRGB flag resolves to the ICC space.\<close>

theorem gegl_png_space_icc_wins_witness:
  "gegl_png_space term_babl (plain_info\<lparr> png_get_iCCP := Some (''icc'', 0, [1, 2, 3], 3),
       png_valid_sRGB := True \<rparr>) = Some (Icc_space [1, 2, 3] False)"
proof -
  let ?info = "plain_info\<lparr> png_get_iCCP := Some (''icc'', 0, [1, 2, 3], 3) \<rparr>"
  have 1: "png_get_iCCP ?info = Some (''icc'', 0, [1, 2, 3], 3)" by simp
  have 2: "babl_space_from_icc term_babl [1, 2, 3] (sint (3 :: 32 word))
             BABL_ICC_INTENT_RELATIVE_COLORIMETRIC = Some (Icc_space [1, 2, 3] False)"
    by (simp add: term_babl_def)
  from gegl_png_space_icc_wins [OF 1 2, where srgb = True and gama = None and chrm = None]
  show ?thesis by (simp add: plain_info_def)
qed

text \<open>
  Claim C2. With no iCCP chunk, no sRGB flag, a gAMA chunk of gamma \<open>g\<close> and no cHRM
  chunk, the space resolved is the one babl builds from the sRGB chromaticities (white
  0.3127, 0.3290; red 0.6400, 0.3300; green 0.3000, 0.6000; blue 0.1500, 0.0600) and, on
  all three channels, the pure-gamma curve of exponent \<open>1 / g\<close>.
\<close>

theorem gegl_png_space_gamma_only:
  assumes "png_get_iCCP info = None" and "\<not> png_valid_sRGB info"
    and "png_get_gAMA info = Some g" and "png_get_cHRM info = None"
  shows "gegl_png_space B info =
           babl_space_from_chromaticities B None
             (0.3127, 0.3290) (0.6400, 0.3300) (0.3000, 0.6000) (0.1500, 0.0600)
             (babl_trc_gamma B (1 / g)) (babl_trc_gamma B (1 / g)) (babl_trc_gamma B (1 / g)) 1"
  using assms by (simp add: gegl_png_space_def)

text \<open>A file gamma of 0.5 gives the exponent 2.\<close>

theorem gegl_png_space_gamma_only_witness:
  "gegl_png_space term_babl (plain_info\<lparr> png_get_gAMA := Some 0.5 \<rparr>) =
     Some (Rgb_space (0.3127, 0.3290) (0.6400, 0.3300) (0.3000, 0.6000) (0.1500, 0.0600)
             (Trc_gamma 2) (Trc_gamma 2) (Trc_gamma 2))"
proof -
  let ?info = "plain_info\<lparr> png_get_gAMA := Some 0.5 \<rparr>"
  have 1: "png_get_iCCP ?info = None" and 2: "\<not> png_valid_sRGB ?info"
    and 3: "png_get_gAMA ?info = Some 0.5" and 4: "png_get_cHRM ?info = None"
    by (simp_all add: plain_info_def)
  from gegl_png_space_gamma_only [OF 1 2 3 4, of term_babl]
  show ?thesis by (simp add: term_babl_def)
qed

section \<open>Gamma correction requested on decode\<close>

text \<open>
  The header block on an 8-bit RGB image that carries the sRGB flag and no other colour
  chunk.
\<close>

lemma setup_with_srgb_flag:
  "import_setup term_babl True 7 (plain_info\<lparr> png_valid_sRGB := True \<rparr>) None =
     Inr \<lparr> su_events = [Png_set_gamma 2.2 0.45455, Png_read_update_info],
           su_bit_depth = 8, su_color_type = PNG_COLOR_TYPE_RGB, su_bpp = 3,
           su_space = None, su_format = Some (Format ''R'G'B' u8'' None),
           su_number_of_passes = 1 \<rparr>"
  by (simp add: import_setup_def transform_events_def head_events_def gamma_events_def
        expanded_bit_depth_def alpha_color_type_def color_type_bpp_def
        gegl_png_space_def get_babl_format_def format_layout_def
        plain_info_def term_babl_def png_consts)

text \<open>
  Claim C3 says that the fixed gamma correction (screen gamma 2.2, file gamma 0.45455) is
  requested only when there is no iCCP chunk, no sRGB flag and no gAMA chunk, and not
  when the sRGB flag resolves the space. The loader run on an image with the sRGB flag
  alone requests it: \<^verbatim>\<open>gegl_png_space\<close> answers the flag with \<^verbatim>\<open>NULL\<close>, and the
  request is made for every \<^verbatim>\<open>NULL\<close> space.
\<close>

theorem srgb_flag_fixed_gamma:
  "gegl_buffer_import_png term_babl memory_gio
       (quiet_libpng (plain_info\<lparr> png_valid_sRGB := True \<rparr>)) True
       (Some (png_signature @ [0, 0, 0, 13])) None =
     Returns \<lparr> ir_ret = 0, ir_err = None, ir_size = Some (1, 1),
               ir_format = Some (Format ''R'G'B' u8'' None),
               ir_stream = Some [], ir_stderr = [],
               ir_events =
                 [Png_create_read_struct, Png_create_info_struct,
                  Png_set_benign_errors True, Png_set_option_skip_sRGB_check_profile,
                  Png_set_read_fn, Png_set_sig_bytes 8, Png_read_info,
                  Png_set_gamma 2.2 0.45455, Png_read_update_info,
                  Png_read_rows, Gegl_buffer_set (0, 0, 1, 1) (Some (Format ''R'G'B' u8'' None)),
                  Png_read_end, Png_destroy_read_struct] \<rparr>"
  by (simp add: gegl_buffer_import_png_def check_valid_png_header_def png_sig_cmp_def
        png_signature_def memory_gio_def quiet_libpng_def reader_cb_def read_fn_def
        import_rows_def
        import_setup_def transform_events_def head_events_def gamma_events_def
        expanded_bit_depth_def alpha_color_type_def color_type_bpp_def
        gegl_png_space_def get_babl_format_def format_layout_def
        plain_info_def term_babl_def png_consts Let_def)

text \<open>
  Claim C3, amended. The header block requests a gamma correction exactly when
  \<^verbatim>\<open>gegl_png_space\<close> returns \<^verbatim>\<open>NULL\<close>: with screen gamma 2.2 and file gamma 0.45455
  when no gAMA chunk is valid, with screen gamma 2.2 and the file's own gamma otherwise.
  When a space is resolved (from an ICC profile or from a gamma chunk) no correction is
  requested. The sRGB flag without an iCCP chunk gives \<^verbatim>\<open>NULL\<close>, so it is among the
  cases with a correction.
\<close>

theorem gamma_request_iff_no_space:
  assumes "import_setup B le passes info format = Inr su"
  shows "filter is_set_gamma (su_events su) =
           (if gegl_png_space B info = None
            then [Png_set_gamma 2.2 (case png_get_gAMA info of None \<Rightarrow> 0.45455 | Some g \<Rightarrow> g)]
            else [])
       \<and> (png_get_iCCP info = None \<and> png_valid_sRGB info \<longrightarrow> gegl_png_space B info = None)"
proof -
  have "filter is_set_gamma (su_events su) = gamma_events (gegl_png_space B info) info"
    using import_setup_Inr(1) [OF assms] by (simp add: transform_events_gamma)
  moreover have "gamma_events (gegl_png_space B info) info =
           (if gegl_png_space B info = None
            then [Png_set_gamma 2.2 (case png_get_gAMA info of None \<Rightarrow> 0.45455 | Some g \<Rightarrow> g)]
            else [])"
    by (cases "png_get_gAMA info") (simp_all add: gamma_events_def)
  moreover have "png_get_iCCP info = None \<and> png_valid_sRGB info \<longrightarrow> gegl_png_space B info = None"
    by (simp add: gegl_png_space_def)
  ultimately show ?thesis by simp
qed

text \<open>The image with the sRGB flag alone: one request, with the fixed pair.\<close>

theorem gamma_request_iff_no_space_witness:
  "import_setup term_babl True 7 (plain_info\<lparr> png_valid_sRGB := True \<rparr>) None =
     Inr \<lparr> su_events = [Png_set_gamma 2.2 0.45455, Png_read_update_info],
           su_bit_depth = 8, su_color_type = PNG_COLOR_TYPE_RGB, su_bpp = 3,
           su_space = None, su_format = Some (Format ''R'G'B' u8'' None),
           su_number_of_passes = 1 \<rparr>
   \<and> filter is_set_gamma
       (su_events \<lparr> su_events = [Png_set_gamma 2.2 0.45455, Png_read_update_info],
           su_bit_depth = 8, su_color_type = PNG_COLOR_TYPE_RGB, su_bpp = 3,
           su_space = None, su_format = Some (Format ''R'G'B' u8'' None),
           su_number_of_passes = 1 \<rparr>) = [Png_set_gamma 2.2 0.45455]
   \<and> png_valid_sRGB (plain_info\<lparr> png_valid_sRGB := True \<rparr>)
   \<and> gegl_png_space term_babl (plain_info\<lparr> png_valid_sRGB := True \<rparr>) = None"
proof -
  have n: "gegl_png_space term_babl (plain_info\<lparr> png_valid_sRGB := True \<rparr>) = None"
    by (simp add: gegl_png_space_def plain_info_def)
  have g: "png_get_gAMA (plain_info\<lparr> png_valid_sRGB := True \<rparr>) = None"
    by (simp add: plain_info_def)
  from gamma_request_iff_no_space [OF setup_with_srgb_flag] n g setup_with_srgb_flag
  show ?thesis by simp
qed

section \<open>Pixel format on decode\<close>

text \<open>
  Claim C4. For a palette image (of a bit depth up to 8, as PNG has them) the format
  chosen is \<^verbatim>\<open>R'G'B'A u8\<close> when the tRNS chunk is valid and \<^verbatim>\<open>R'G'B' u8\<close>, without
  alpha, when it is not; this holds for the full decode with no format given by the
  caller and for the call of \<^verbatim>\<open>get_babl_format\<close> that the header query makes.
\<close>

theorem palette_format:
  assumes "ihdr_color_type info = PNG_COLOR_TYPE_PALETTE" and "ihdr_bit_depth info \<le> 8"
  shows "(\<exists>su. import_setup B le passes info None = Inr su
            \<and> su_format su =
                Some (babl_format_with_space B
                        (if png_valid_tRNS info then ''R'G'B'A u8'' else ''R'G'B' u8'')
                        (gegl_png_space B info)))
       \<and> get_babl_format B (ihdr_bit_depth info) (alpha_color_type info) space =
           Some (babl_format_with_space B
                   (if png_valid_tRNS info then ''R'G'B'A u8'' else ''R'G'B' u8'') space)"
proof -
  have f: "get_babl_format B (ihdr_bit_depth info) (alpha_color_type info) sp =
           Some (babl_format_with_space B
                   (if png_valid_tRNS info then ''R'G'B'A u8'' else ''R'G'B' u8'') sp)" for sp
    using assms
    by (simp add: get_babl_format_def format_layout_def alpha_color_type_def png_consts)
  have e: "expanded_bit_depth info = ihdr_bit_depth info"
    using assms by (simp add: expanded_bit_depth_def png_consts)
  have "color_type_bpp (alpha_color_type info) \<noteq> None"
    using assms by (simp add: color_type_bpp_def alpha_color_type_def png_consts)
  then obtain su where su: "import_setup B le passes info None = Inr su"
    by (auto simp: import_setup_def)
  from import_setup_Inr(4) [OF su] e f
  have "su_format su = Some (babl_format_with_space B
                   (if png_valid_tRNS info then ''R'G'B'A u8'' else ''R'G'B' u8'')
                   (gegl_png_space B info))" by simp
  with su f show ?thesis by blast
qed

text \<open>A 4-bit palette image with a tRNS chunk.\<close>

theorem palette_format_witness:
  "get_babl_format term_babl 4 (PNG_COLOR_TYPE_PALETTE OR PNG_COLOR_MASK_ALPHA) None =
     Some (Format ''R'G'B'A u8'' None)"
proof -
  let ?info = "plain_info\<lparr> ihdr_bit_depth := 4, ihdr_color_type := PNG_COLOR_TYPE_PALETTE,
                  png_valid_tRNS := True \<rparr>"
  have 1: "ihdr_color_type ?info = PNG_COLOR_TYPE_PALETTE" by simp
  have 2: "ihdr_bit_depth ?info \<le> 8" by simp
  from palette_format [OF 1 2, of term_babl _ _ None]
  show ?thesis by (simp add: alpha_color_type_def term_babl_def)
qed

text \<open>
  How \<^verbatim>\<open>get_babl_format\<close> maps the bit depth: the layout never fails, a depth up to 8
  gives 8-bit samples, 16 gives 16-bit samples and every other depth gives \<^verbatim>\<open>NULL\<close>;
  a gray image below 8 bits is expanded to 8 bits first.
\<close>

lemma format_layout_cases:
  "format_layout color_type \<in> {Some ''R'G'B'A '', Some ''R'G'B' '', Some ''Y'A '', Some ''Y' ''}"
  by (simp add: format_layout_def png_consts)

lemma get_babl_format_bit_depth:
  "\<exists>layout. format_layout color_type = Some layout
     \<and> (bit_depth \<le> 8 \<longrightarrow> get_babl_format B bit_depth color_type space =
            Some (babl_format_with_space B (layout @ ''u8'') space))
     \<and> (bit_depth = 16 \<longrightarrow> get_babl_format B bit_depth color_type space =
            Some (babl_format_with_space B (layout @ ''u16'') space))
     \<and> (8 < bit_depth \<and> bit_depth \<noteq> 16 \<longrightarrow> get_babl_format B bit_depth color_type space = None)"
proof -
  from format_layout_cases [of color_type]
  obtain layout where "format_layout color_type = Some layout" by auto
  then show ?thesis by (simp add: get_babl_format_def)
qed

lemma gray_expanded:
  assumes "ihdr_color_type info = PNG_COLOR_TYPE_GRAY" and "ihdr_bit_depth info < 8"
  shows "expanded_bit_depth info = 8" and "Png_set_expand \<in> set (transform_events B le info)"
  using assms by (simp_all add: expanded_bit_depth_def transform_events_def head_events_def)

text \<open>
  What a header of bit depth 9 to 15 leads to, on a stream that starts with the PNG
  signature: a libpng that validates the header raises in \<^verbatim>\<open>png_read_info\<close>, and the
  \<^verbatim>\<open>setjmp\<close> branch of \<^verbatim>\<open>gegl_buffer_import_png\<close> (lines 264-269) returns \<^verbatim>\<open>-1\<close>;
  \<^verbatim>\<open>query_png\<close> returns \<^verbatim>\<open>-1\<close> either there or at its test of the format
  (lines 465-469).
\<close>

lemma header_accepted:
  assumes "g_input_stream_read G s 8 = (s', Inr png_signature)"
  shows "check_valid_png_header G s = Returns (s', True, None)"
  using assms
  by (simp add: check_valid_png_header_def png_sig_cmp_def png_signature_def)

lemma read_info_jumps:
  assumes "\<And>h. raises (h @ [Png_read_info])"
    and "png_run raises cb hist io [Png_set_read_fn, Png_set_sig_bytes 8, Png_read_info]
           = (j, h1, io1)"
  shows "j"
  using assms(2) assms(1) [of "hist @ [Png_set_read_fn, Png_set_sig_bytes 8]"]
  by (simp split: if_splits)

lemma invalid_depth_raises:
  assumes "libpng_checks_ihdr L"
    and "\<And>d. 9 \<le> ihdr_bit_depth (png_parsed L d) \<and> ihdr_bit_depth (png_parsed L d) \<le> 15"
  shows "png_error_in L (h @ [Png_read_info])"
proof -
  have "ihdr_bit_depth (png_parsed L []) \<notin> {1, 2, 4, 8, 16}"
    using assms(2) [of "[]"] by auto
  with assms(1) show ?thesis unfolding libpng_checks_ihdr_def by blast
qed

lemma import_invalid_depth:
  assumes "libpng_checks_ihdr L"
    and "\<And>d. 9 \<le> ihdr_bit_depth (png_parsed L d) \<and> ihdr_bit_depth (png_parsed L d) \<le> 15"
    and "g_input_stream_read G s 8 = (s', Inr png_signature)"
  shows "\<exists>r. gegl_buffer_import_png B G L le (Some s) format = Returns r \<and> ir_ret r = - 1"
proof -
  obtain j h1 s2 p d where run:
    "png_run (png_error_in L) (reader_cb G L)
        [Png_create_read_struct, Png_create_info_struct,
         Png_set_benign_errors True, Png_set_option_skip_sRGB_check_profile]
        ((s', []), [])
        [Png_set_read_fn, Png_set_sig_bytes 8, Png_read_info] = (j, h1, ((s2, p), d))"
    by (metis surj_pair)
  have j by (rule read_info_jumps [OF invalid_depth_raises [OF assms(1,2)] run])
  with run show ?thesis
    by (simp add: gegl_buffer_import_png_def header_accepted [OF assms(3)])
qed

lemma query_invalid_depth:
  assumes "\<And>d. 9 \<le> ihdr_bit_depth (png_parsed L d) \<and> ihdr_bit_depth (png_parsed L d) \<le> 15"
    and "g_input_stream_read G s 8 = (s', Inr png_signature)"
  shows "\<exists>r. query_png B G L (Some s) = Returns r \<and> ir_ret r = - 1 \<and> ir_format r = None"
proof -
  obtain j h1 s2 p d where run:
    "png_run (png_error_in L) (reader_cb G L)
        [Png_create_read_struct, Png_create_info_struct,
         Png_set_benign_errors True, Png_set_option_skip_sRGB_check_profile]
        ((s', []), [])
        [Png_set_read_fn, Png_set_sig_bytes 8, Png_read_info] = (j, h1, ((s2, p), d))"
    by (metis surj_pair)
  have "get_babl_format B (ihdr_bit_depth (png_parsed L d)) ct sp = None" for ct sp
    using get_babl_format_bit_depth [of ct "ihdr_bit_depth (png_parsed L d)" B sp] assms(1) [of d]
    by auto
  with run show ?thesis
    by (cases j) (simp_all add: query_png_def header_accepted [OF assms(2)] Let_def)
qed

text \<open>
  Claim C5. On decode a bit depth below 8 is reported as 8-bit samples (and a gray image
  of such a depth is expanded to 8 bits), a bit depth of 16 is reported as 16-bit samples,
  and a bit depth from 9 to 15 produces no pixel format and makes the decode fail:
  \<^verbatim>\<open>get_babl_format\<close> returns \<^verbatim>\<open>NULL\<close> for it, the header query returns \<^verbatim>\<open>-1\<close> with no
  format, and the full decode returns \<^verbatim>\<open>-1\<close> because libpng, which validates the header,
  raises before any format is chosen.
\<close>

theorem bit_depth_negotiation:
  "(low < 8 \<longrightarrow>
      (\<exists>layout. format_layout color_type = Some layout
         \<and> get_babl_format B low color_type space =
             Some (babl_format_with_space B (layout @ ''u8'') space)))
   \<and> (ihdr_color_type info = PNG_COLOR_TYPE_GRAY \<and> ihdr_bit_depth info < 8 \<longrightarrow>
        expanded_bit_depth info = 8 \<and> Png_set_expand \<in> set (transform_events B le info))
   \<and> (\<exists>layout. format_layout color_type = Some layout
         \<and> get_babl_format B 16 color_type space =
             Some (babl_format_with_space B (layout @ ''u16'') space))
   \<and> (9 \<le> mid \<and> mid \<le> 15 \<longrightarrow> get_babl_format B mid color_type space = None)
   \<and> ((\<forall>d. 9 \<le> ihdr_bit_depth (png_parsed L d) \<and> ihdr_bit_depth (png_parsed L d) \<le> 15)
        \<and> g_input_stream_read G s 8 = (s', Inr png_signature) \<longrightarrow>
        (\<exists>r. query_png B G L (Some s) = Returns r \<and> ir_ret r = - 1 \<and> ir_format r = None)
        \<and> (libpng_checks_ihdr L \<longrightarrow>
             (\<exists>r. gegl_buffer_import_png B G L le (Some s) format = Returns r
                  \<and> ir_ret r = - 1)))"
proof -
  have 1: "low < 8 \<longrightarrow>
      (\<exists>layout. format_layout color_type = Some layout
         \<and> get_babl_format B low color_type space =
             Some (babl_format_with_space B (layout @ ''u8'') space))"
    using get_babl_format_bit_depth [of color_type low B space] by auto
  have 2: "ihdr_color_type info = PNG_COLOR_TYPE_GRAY \<and> ihdr_bit_depth info < 8 \<longrightarrow>
        expanded_bit_depth info = 8 \<and> Png_set_expand \<in> set (transform_events B le info)"
    using gray_expanded(1) [of info] gray_expanded(2) [of info B le] by blast
  have 3: "\<exists>layout. format_layout color_type = Some layout
         \<and> get_babl_format B 16 color_type space =
             Some (babl_format_with_space B (layout @ ''u16'') space)"
    using get_babl_format_bit_depth [of color_type 16 B space] by auto
  have 4: "9 \<le> mid \<and> mid \<le> 15 \<longrightarrow> get_babl_format B mid color_type space = None"
    using get_babl_format_bit_depth [of color_type mid B space] by auto
  have 5: "(\<forall>d. 9 \<le> ihdr_bit_depth (png_parsed L d) \<and> ihdr_bit_depth (png_parsed L d) \<le> 15)
        \<and> g_input_stream_read G s 8 = (s', Inr png_signature) \<longrightarrow>
        (\<exists>r. query_png B G L (Some s) = Returns r \<and> ir_ret r = - 1 \<and> ir_format r = None)
        \<and> (libpng_checks_ihdr L \<longrightarrow>
             (\<exists>r. gegl_buffer_import_png B G L le (Some s) format = Returns r
                  \<and> ir_ret r = - 1))"
    using query_invalid_depth [of L G s s' B] import_invalid_depth [of L G s s' B le format]
    by blast
  from 1 2 3 4 5 show ?thesis by blast
qed


text \<open>
  A 4-bit gray image, and a header of bit depth 12 read through a libpng that validates it.
\<close>

theorem bit_depth_negotiation_witness:
  "get_babl_format term_babl 4 PNG_COLOR_TYPE_GRAY None = Some (Format ''Y' u8'' None)
   \<and> expanded_bit_depth (plain_info\<lparr> ihdr_bit_depth := 4,
                              ihdr_color_type := PNG_COLOR_TYPE_GRAY \<rparr>) = 8
   \<and> get_babl_format term_babl 16 PNG_COLOR_TYPE_GRAY None = Some (Format ''Y' u16'' None)
   \<and> get_babl_format term_babl 12 PNG_COLOR_TYPE_GRAY None = None
   \<and> query_png term_babl memory_gio (checking_libpng (plain_info\<lparr> ihdr_bit_depth := 12 \<rparr>))
       (Some (png_signature @ [0, 0, 0, 13])) =
     Returns \<lparr> ir_ret = - 1, ir_err = None, ir_size = None, ir_format = None,
               ir_stream = Some [], ir_stderr = [],
               ir_events =
                 [Png_create_read_struct, Png_create_info_struct,
                  Png_set_benign_errors True, Png_set_option_skip_sRGB_check_profile,
                  Png_set_read_fn, Png_set_sig_bytes 8, Png_read_info,
                  Png_destroy_read_struct] \<rparr>
   \<and> gegl_buffer_import_png term_babl memory_gio
       (checking_libpng (plain_info\<lparr> ihdr_bit_depth := 12 \<rparr>)) True
       (Some (png_signature @ [0, 0, 0, 13])) None =
     Returns \<lparr> ir_ret = - 1, ir_err = None, ir_size = None, ir_format = None,
               ir_stream = Some [], ir_stderr = [],
               ir_events =
                 [Png_create_read_struct, Png_create_info_struct,
                  Png_set_benign_errors True, Png_set_option_skip_sRGB_check_profile,
                  Png_set_read_fn, Png_set_sig_bytes 8, Png_read_info,
                  Png_destroy_read_struct] \<rparr>"
proof -
  let ?L = "checking_libpng (plain_info\<lparr> ihdr_bit_depth := 12 \<rparr>) :: babl_obj libpng"
  let ?gray = "plain_info\<lparr> ihdr_bit_depth := 4, ihdr_color_type := PNG_COLOR_TYPE_GRAY \<rparr>"
  have low: "(4 :: int) < 8" and mid: "(9 :: int) \<le> 12 \<and> (12 :: int) \<le> 15" by simp_all
  have gray: "ihdr_color_type ?gray = PNG_COLOR_TYPE_GRAY \<and> ihdr_bit_depth ?gray < 8" by simp
  have depth: "\<forall>d. 9 \<le> ihdr_bit_depth (png_parsed ?L d) \<and> ihdr_bit_depth (png_parsed ?L d) \<le> 15"
    by (simp add: checking_libpng_def quiet_libpng_def)
  have hdr: "g_input_stream_read memory_gio (png_signature @ [0, 0, 0, 13]) 8
               = ([0, 0, 0, 13], Inr png_signature)"
    by (simp add: memory_gio_def png_signature_def)
  have contract: "libpng_checks_ihdr ?L"
    by (simp add: libpng_checks_ihdr_def checking_libpng_def)
  note t = bit_depth_negotiation [where low = 4 and mid = 12 and info = ?gray and L = ?L
      and G = memory_gio and s = "png_signature @ [0, 0, 0, 13]" and s' = "[0, 0, 0, 13]"
      and B = term_babl and color_type = PNG_COLOR_TYPE_GRAY and space = None
      and le = True and format = None]
  from t low have 1: "\<exists>layout. format_layout PNG_COLOR_TYPE_GRAY = Some layout
         \<and> get_babl_format term_babl 4 PNG_COLOR_TYPE_GRAY None =
             Some (babl_format_with_space term_babl (layout @ ''u8'') None)" by blast
  from t gray have 2: "expanded_bit_depth ?gray = 8" by blast
  from t have 3: "\<exists>layout. format_layout PNG_COLOR_TYPE_GRAY = Some layout
         \<and> get_babl_format term_babl 16 PNG_COLOR_TYPE_GRAY None =
             Some (babl_format_with_space term_babl (layout @ ''u16'') None)" by blast
  from t mid have 4: "get_babl_format term_babl 12 PNG_COLOR_TYPE_GRAY None = None" by blast
  from t depth hdr have 5: "\<exists>r. query_png term_babl memory_gio ?L
           (Some (png_signature @ [0, 0, 0, 13])) = Returns r \<and> ir_ret r = - 1 \<and> ir_format r = None"
    by blast
  from t depth hdr contract
  have 6: "\<exists>r. gegl_buffer_import_png term_babl memory_gio ?L True
           (Some (png_signature @ [0, 0, 0, 13])) None = Returns r \<and> ir_ret r = - 1"
    by blast
  have layout: "format_layout PNG_COLOR_TYPE_GRAY = Some ''Y' ''"
    by (simp add: format_layout_def png_consts)
  have q: "query_png term_babl memory_gio ?L (Some (png_signature @ [0, 0, 0, 13])) =
     Returns \<lparr> ir_ret = - 1, ir_err = None, ir_size = None, ir_format = None,
               ir_stream = Some [], ir_stderr = [],
               ir_events =
                 [Png_create_read_struct, Png_create_info_struct,
                  Png_set_benign_errors True, Png_set_option_skip_sRGB_check_profile,
                  Png_set_read_fn, Png_set_sig_bytes 8, Png_read_info,
                  Png_destroy_read_struct] \<rparr>"
    by (simp add: query_png_def check_valid_png_header_def png_sig_cmp_def png_signature_def
          memory_gio_def checking_libpng_def quiet_libpng_def reader_cb_def read_fn_def
          plain_info_def Let_def)
  have i: "gegl_buffer_import_png term_babl memory_gio ?L True
       (Some (png_signature @ [0, 0, 0, 13])) None =
     Returns \<lparr> ir_ret = - 1, ir_err = None, ir_size = None, ir_format = None,
               ir_stream = Some [], ir_stderr = [],
               ir_events =
                 [Png_create_read_struct, Png_create_info_struct,
                  Png_set_benign_errors True, Png_set_option_skip_sRGB_check_profile,
                  Png_set_read_fn, Png_set_sig_bytes 8, Png_read_info,
                  Png_destroy_read_struct] \<rparr>"
    by (simp add: gegl_buffer_import_png_def check_valid_png_header_def png_sig_cmp_def
          png_signature_def memory_gio_def checking_libpng_def quiet_libpng_def reader_cb_def
          read_fn_def plain_info_def Let_def)
  have fw: "babl_format_with_space term_babl x None = Format x None" for x
    by (simp add: term_babl_def)
  from 1 3 layout fw have a: "get_babl_format term_babl 4 PNG_COLOR_TYPE_GRAY None
                             = Some (Format ''Y' u8'' None)"
    and b: "get_babl_format term_babl 16 PNG_COLOR_TYPE_GRAY None = Some (Format ''Y' u16'' None)"
    by auto
  from a 2 b 4 5 6 q i show ?thesis by simp
qed

section \<open>Signature check\<close>

lemma header_rejected:
  assumes "g_input_stream_read G s 8 = (s', Inr header)"
    and "length header < 8 \<or> (length header = 8 \<and> header \<noteq> png_signature)"
  shows "check_valid_png_header G s =
           Returns (s', False, Some (Load_png_error (if length header < 8 then LOAD_PNG_TOO_SHORT
                                                    else LOAD_PNG_WRONG_HEADER)))"
  using assms
  by (auto simp add: check_valid_png_header_def png_sig_cmp_def png_signature_def Let_def)

text \<open>
  Claim C6. When the first read of the stream yields fewer than 8 bytes, or 8 bytes that
  are not the PNG signature, the decode and the header query return \<^verbatim>\<open>-1\<close> with the
  error \<^verbatim>\<open>LOAD_PNG_TOO_SHORT\<close> or \<^verbatim>\<open>LOAD_PNG_WRONG_HEADER\<close> of the loader's own error
  domain, and no call into libpng has been made: no read structure exists and nothing
  was parsed.
\<close>

theorem invalid_header_no_parser:
  assumes "g_input_stream_read G s 8 = (s', Inr header)"
    and "length header < 8 \<or> (length header = 8 \<and> header \<noteq> png_signature)"
  shows "gegl_buffer_import_png B G L le (Some s) format =
           Returns \<lparr> ir_ret = - 1,
                     ir_err = Some (Load_png_error (if length header < 8 then LOAD_PNG_TOO_SHORT
                                                    else LOAD_PNG_WRONG_HEADER)),
                     ir_size = None, ir_format = format, ir_stream = Some s',
                     ir_stderr = [], ir_events = [] \<rparr>
       \<and> query_png B G L (Some s) =
           Returns \<lparr> ir_ret = - 1,
                     ir_err = Some (Load_png_error (if length header < 8 then LOAD_PNG_TOO_SHORT
                                                    else LOAD_PNG_WRONG_HEADER)),
                     ir_size = None, ir_format = None, ir_stream = Some s',
                     ir_stderr = [], ir_events = [] \<rparr>"
  by (simp add: gegl_buffer_import_png_def query_png_def header_rejected [OF assms])

text \<open>A stream of three bytes, and a stream that starts like a GIF file.\<close>

theorem invalid_header_no_parser_witness:
  "gegl_buffer_import_png term_babl memory_gio (quiet_libpng plain_info) True
       (Some [137, 80, 78]) None =
     Returns \<lparr> ir_ret = - 1, ir_err = Some (Load_png_error LOAD_PNG_TOO_SHORT),
               ir_size = None, ir_format = None, ir_stream = Some [],
               ir_stderr = [], ir_events = [] \<rparr>
   \<and> gegl_buffer_import_png term_babl memory_gio (quiet_libpng plain_info) True
       (Some [71, 73, 70, 56, 57, 97, 1, 0, 1, 0]) None =
     Returns \<lparr> ir_ret = - 1, ir_err = Some (Load_png_error LOAD_PNG_WRONG_HEADER),
               ir_size = None, ir_format = None, ir_stream = Some [1, 0],
               ir_stderr = [], ir_events = [] \<rparr>"
proof -
  have 1: "g_input_stream_read memory_gio [137, 80, 78] 8 = ([], Inr [137, 80, 78])"
    by (simp add: memory_gio_def)
  have 2: "length [137, 80, 78 :: byte] < 8
         \<or> (length [137, 80, 78 :: byte] = 8 \<and> [137, 80, 78] \<noteq> png_signature)" by simp
  have 3: "g_input_stream_read memory_gio [71, 73, 70, 56, 57, 97, 1, 0, 1, 0] 8 =
             ([1, 0], Inr [71, 73, 70, 56, 57, 97, 1, 0])"
    by (simp add: memory_gio_def)
  have 4: "length [71, 73, 70, 56, 57, 97, 1, 0 :: byte] < 8
         \<or> (length [71, 73, 70, 56, 57, 97, 1, 0 :: byte] = 8
            \<and> [71, 73, 70, 56, 57, 97, 1, 0] \<noteq> png_signature)"
    by (simp add: png_signature_def)
  from invalid_header_no_parser [OF 1 2, of term_babl "quiet_libpng plain_info" True None]
       invalid_header_no_parser [OF 3 4, of term_babl "quiet_libpng plain_info" True None]
  show ?thesis by simp
qed

section \<open>Facts about the saver\<close>

text \<open>
  The calls recorded by \<open>png_run\<close> are the history it started from followed by a prefix
  of the calls it was given; so every call of \<^verbatim>\<open>process\<close> is one of
  \<open>export_png_calls\<close> or one of the four calls around them.
\<close>

lemma png_run_prefix:
  "png_run raises cb hist io cs = (j, h', io') \<Longrightarrow> \<exists>n. h' = hist @ take n cs"
proof (induction cs arbitrary: hist io)
  case Nil
  then show ?case by simp
next
  case (Cons c cs)
  show ?case
  proof (cases "is_libpng c \<and> raises (hist @ [c])")
    case True
    with Cons.prems have "h' = hist @ take 1 (c # cs)" by simp
    then show ?thesis by blast
  next
    case False
    then obtain io1 where "png_run raises cb (hist @ [c]) io1 cs = (j, h', io')"
      using Cons.prems by (auto split: if_splits)
    from Cons.IH [OF this] obtain n where "h' = (hist @ [c]) @ take n cs" by blast
    then have "h' = hist @ take (Suc n) (c # cs)" by simp
    then show ?thesis by blast
  qed
qed

lemma png_run_events:
  assumes "png_run raises cb hist io cs = (j, h', io')" and "e \<in> set h'"
  shows "e \<in> set hist \<or> e \<in> set cs"
proof -
  from png_run_prefix [OF assms(1)] obtain n where "h' = hist @ take n cs" by blast
  with assms(2) show ?thesis by (auto dest: in_set_takeD)
qed

lemma process_save_events:
  assumes "e \<in> set (sr_events (process_save B G L le opened babl result compression bitdepth))"
  shows "e \<in> {Png_create_write_struct, Png_create_info_struct, Png_set_write_fn,
              Png_destroy_write_struct}
       \<or> e \<in> set (export_png_calls B le babl result compression bitdepth)"
proof (cases "png_create_write_struct_ok L \<and> png_create_info_struct_ok L \<and> opened \<noteq> None")
  case False
  with assms show ?thesis by (auto simp: process_save_def split: option.splits if_splits)
next
  case True
  then obtain stream where o: "opened = Some stream" by auto
  obtain j h' io' where r: "png_run (png_error_in L) (writer_cb G L)
      [Png_create_write_struct, Png_create_info_struct, Png_set_write_fn] (stream, [])
      (export_png_calls B le babl result compression bitdepth) = (j, h', io')"
    by (metis prod_cases3)
  with assms True o have "e \<in> set h' \<or> e = Png_destroy_write_struct"
    by (auto simp: process_save_def export_png_def split: prod.splits)
  with png_run_events [OF r] show ?thesis by auto
qed

lemma filter_rows_color:
  "filter is_color_chunk (concat (map (\<lambda>i. [Gegl_buffer_get (r i) f, Png_write_rows]) xs)) = []"
  by (induction xs) simp_all

lemma export_color_events_color:
  "filter is_color_chunk (export_color_events B ct space) = export_color_events B ct space"
proof (cases space)
  case None
  then show ?thesis by (simp add: export_color_events_def)
next
  case (Some sp)
  obtain wp red green blue t0 t1 t2
    where g: "babl_space_get B sp = (wp, red, green, blue, t0, t1, t2)"
    by (metis prod_cases7)
  show ?thesis
  proof (cases "babl_space_get_icc B sp")
    case None
    with Some g show ?thesis by (simp add: export_color_events_def Let_def)
  next
    case (Some a)
    obtain p l where "a = (p, l)" by (cases a)
    with Some \<open>space = Some sp\<close> g show ?thesis by (simp add: export_color_events_def Let_def)
  qed
qed

lemma export_calls_filter_color:
  "filter is_color_chunk (export_png_calls B le babl (x, y, w, h) compression bit_depth) =
     export_color_events B (fst (export_color_type B babl)) (babl_format_get_space B babl)"
  by (simp add: export_png_calls_def Let_def export_color_events_color filter_rows_color)

lemma iccp_in_color_events:
  assumes "Png_set_iCCP n c p l \<in> set (export_color_events B ct space)"
  shows "\<exists>sp. space = Some sp \<and> \<not> babl_space_is_cmyk B sp
            \<and> babl_space_get_icc B sp = Some (p, l)"
proof (cases space)
  case None
  with assms show ?thesis by (simp add: export_color_events_def split: if_splits)
next
  case (Some sp)
  obtain wp red green blue t0 t1 t2
    where g: "babl_space_get B sp = (wp, red, green, blue, t0, t1, t2)"
    by (metis prod_cases7)
  show ?thesis
  proof (cases "babl_space_get_icc B sp")
    case None
    with assms Some g show ?thesis
      by (simp add: export_color_events_def Let_def split: if_splits)
  next
    case (Some a)
    obtain p' l' where "a = (p', l')" by (cases a)
    with assms Some \<open>space = Some sp\<close> g show ?thesis
      by (simp add: export_color_events_def Let_def split: if_splits)
  qed
qed

lemma iccp_in_process_save:
  assumes "Png_set_iCCP n c p l
             \<in> set (sr_events (process_save B G L le opened babl (x, y, w, h) compression bitdepth))"
  shows "\<exists>sp. babl_format_get_space B babl = Some sp \<and> \<not> babl_space_is_cmyk B sp
            \<and> babl_space_get_icc B sp = Some (p, l)"
proof -
  from process_save_events [OF assms]
  have "Png_set_iCCP n c p l \<in> set (export_png_calls B le babl (x, y, w, h) compression bitdepth)"
    by simp
  then have "Png_set_iCCP n c p l
      \<in> set (filter is_color_chunk (export_png_calls B le babl (x, y, w, h) compression bitdepth))"
    by simp
  then show ?thesis
    unfolding export_calls_filter_color by (rule iccp_in_color_events)
qed

section \<open>Colour chunks on encode\<close>

text \<open>
  Claim C7. An iCCP chunk is set only when the space of the input format is not flagged
  CMYK and carries ICC profile bytes, which are the bytes set; with a space flagged CMYK
  no iCCP chunk is set, whatever profile the space carries.
\<close>

theorem icc_chunk_never_for_cmyk:
  "(Png_set_iCCP name c profile len
      \<in> set (sr_events (process_save B G L le opened babl (x, y, w, h) compression bitdepth))
    \<longrightarrow> (\<exists>sp. babl_format_get_space B babl = Some sp \<and> \<not> babl_space_is_cmyk B sp
              \<and> babl_space_get_icc B sp = Some (profile, len)))
   \<and> (babl_format_get_space B babl = Some cmyk_space \<and> babl_space_is_cmyk B cmyk_space
    \<longrightarrow> Png_set_iCCP name c profile len
          \<notin> set (sr_events (process_save B G L le opened babl (x, y, w, h) compression bitdepth)))"
  using iccp_in_process_save [of name c profile len B G L le opened babl x y w h compression bitdepth]
  by auto


text \<open>Two runs of the saver: a space with an ICC profile, not CMYK and CMYK.\<close>

lemmas run_save_defs =
  process_save_def export_png_def export_png_calls_def export_color_type_def
  export_color_events_def export_white_def writer_cb_def write_fn_def flush_fn_def
  term_babl_def quiet_libpng_def png_signature_def png_consts Let_def

lemma save_with_icc_profile:
  "sr_events (process_save term_babl memory_gio (quiet_libpng plain_info) True (Some [])
       (Format ''R'G'B' u8'' (Some (Icc_space [1, 2, 3] False))) (0, 0, 1, 1) 3 8) =
     [Png_create_write_struct, Png_create_info_struct, Png_set_write_fn,
      Png_set_compression_level 3,
      Png_set_IHDR 1 1 8 PNG_COLOR_TYPE_RGB PNG_INTERLACE_NONE
        PNG_COMPRESSION_TYPE_BASE PNG_FILTER_TYPE_DEFAULT,
      Png_set_cHRM (0.3127, 0.3290) (0.6400, 0.3300) (0.3000, 0.6000) (0.1500, 0.0600),
      Png_set_gAMA 2.2,
      Png_set_iCCP ''GEGL'' 0 [1, 2, 3] 3,
      Png_set_bKGD \<lparr> c16_index = None, c16_red = None, c16_green = None,
                     c16_blue = None, c16_gray = None \<rparr>,
      Png_write_info,
      Gegl_buffer_get (0, 0, 1, 1)
        (Some (Format ''R'G'B' u8'' (Some (Icc_space [1, 2, 3] False)))),
      Png_write_rows,
      Png_write_end,
      Png_destroy_write_struct]"
  by (simp add: run_save_defs memory_gio_def)

lemma save_with_cmyk_profile:
  "sr_events (process_save term_babl memory_gio (quiet_libpng plain_info) True (Some [])
       (Format ''R'G'B' u8'' (Some (Icc_space [1, 2, 3] True))) (0, 0, 1, 1) 3 8) =
     [Png_create_write_struct, Png_create_info_struct, Png_set_write_fn,
      Png_set_compression_level 3,
      Png_set_IHDR 1 1 8 PNG_COLOR_TYPE_RGB PNG_INTERLACE_NONE
        PNG_COMPRESSION_TYPE_BASE PNG_FILTER_TYPE_DEFAULT,
      Png_set_cHRM (0.3127, 0.3290) (0.6400, 0.3300) (0.3000, 0.6000) (0.1500, 0.0600),
      Png_set_gAMA 2.2,
      Png_set_bKGD \<lparr> c16_index = None, c16_red = None, c16_green = None,
                     c16_blue = None, c16_gray = None \<rparr>,
      Png_write_info,
      Gegl_buffer_get (0, 0, 1, 1)
        (Some (Format ''R'G'B' u8'' (Some (Icc_space [1, 2, 3] True)))),
      Png_write_rows,
      Png_write_end,
      Png_destroy_write_struct]"
  by (simp add: run_save_defs memory_gio_def)

text \<open>
  The first run sets the iCCP chunk; the second, whose CMYK space carries the same
  profile bytes, does not.
\<close>

theorem icc_chunk_never_for_cmyk_witness:
  "babl_format_get_space term_babl (Format ''R'G'B' u8'' (Some (Icc_space [1, 2, 3] False)))
     = Some (Icc_space [1, 2, 3] False)
   \<and> \<not> babl_space_is_cmyk term_babl (Icc_space [1, 2, 3] False)
   \<and> babl_space_get_icc term_babl (Icc_space [1, 2, 3] True) = Some ([1, 2, 3], 3)
   \<and> Png_set_iCCP ''GEGL'' 0 [1, 2, 3] 3
       \<notin> set (sr_events (process_save term_babl memory_gio (quiet_libpng plain_info) True
                  (Some []) (Format ''R'G'B' u8'' (Some (Icc_space [1, 2, 3] True)))
                  (0, 0, 1, 1) 3 8))"
proof -
  have 1: "Png_set_iCCP ''GEGL'' 0 [1, 2, 3] 3
       \<in> set (sr_events (process_save term_babl memory_gio (quiet_libpng plain_info) True
                  (Some []) (Format ''R'G'B' u8'' (Some (Icc_space [1, 2, 3] False)))
                  (0, 0, 1, 1) 3 8))"
    by (simp add: save_with_icc_profile)
  have 2: "babl_format_get_space term_babl (Format ''R'G'B' u8'' (Some (Icc_space [1, 2, 3] True)))
             = Some (Icc_space [1, 2, 3] True)
         \<and> babl_space_is_cmyk term_babl (Icc_space [1, 2, 3] True)"
    by (simp add: term_babl_def)
  from icc_chunk_never_for_cmyk [THEN conjunct1, THEN mp, OF 1]
  have a: "babl_format_get_space term_babl
             (Format ''R'G'B' u8'' (Some (Icc_space [1, 2, 3] False)))
             = Some (Icc_space [1, 2, 3] False)
         \<and> \<not> babl_space_is_cmyk term_babl (Icc_space [1, 2, 3] False)"
    by (auto simp: term_babl_def)
  from icc_chunk_never_for_cmyk [THEN conjunct2, THEN mp, OF 2]
  have b: "Png_set_iCCP ''GEGL'' 0 [1, 2, 3] 3
       \<notin> set (sr_events (process_save term_babl memory_gio (quiet_libpng plain_info) True
                  (Some []) (Format ''R'G'B' u8'' (Some (Icc_space [1, 2, 3] True)))
                  (0, 0, 1, 1) 3 8))" .
  have c: "babl_space_get_icc term_babl (Icc_space [1, 2, 3] True) = Some ([1, 2, 3], 3)"
    by (simp add: term_babl_def)
  from a b c show ?thesis by blast
qed

text \<open>
  Claim C8 says that with no space, or with sRGB, the sRGB intent is set whatever the
  channel layout. For a gray image with no space the saver sets no colour chunk at all:
  the test of the space is made for the RGB colour types only.
\<close>

theorem gray_without_srgb_chunk:
  "babl_format_get_space term_babl (Format ''Y' u8'' None) = None
   \<and> sr_events (process_save term_babl memory_gio (quiet_libpng plain_info) True (Some [])
       (Format ''Y' u8'' None) (0, 0, 1, 1) 3 8) =
       [Png_create_write_struct, Png_create_info_struct, Png_set_write_fn,
        Png_set_compression_level 3,
        Png_set_IHDR 1 1 8 PNG_COLOR_TYPE_GRAY PNG_INTERLACE_NONE
          PNG_COMPRESSION_TYPE_BASE PNG_FILTER_TYPE_DEFAULT,
        Png_set_bKGD \<lparr> c16_index = None, c16_red = None, c16_green = None,
                       c16_blue = None, c16_gray = Some 0xff \<rparr>,
        Png_write_info,
        Gegl_buffer_get (0, 0, 1, 1) (Some (Format ''Y' u8'' None)),
        Png_write_rows,
        Png_write_end,
        Png_destroy_write_struct]"
  by (simp add: run_save_defs memory_gio_def)

text \<open>
  Claim C8, amended. With no space, or with the sRGB space: for an RGB or RGB+alpha
  image the only colour chunk call is \<^verbatim>\<open>png_set_sRGB_gAMA_and_cHRM\<close> with the
  relative-colorimetric intent (no call of \<^verbatim>\<open>png_set_gAMA\<close>, \<^verbatim>\<open>png_set_cHRM\<close> or
  \<^verbatim>\<open>png_set_iCCP\<close>), and the background is white with red, green and blue 255; for a
  gray or gray+alpha image there is no colour chunk call, and the background has gray 255.
\<close>

theorem srgb_chunk_for_rgb_only:
  assumes "babl_format_get_space B babl = None
         \<or> babl_format_get_space B babl = Some (babl_space B ''sRGB'')"
  shows "filter is_color_chunk (export_png_calls B le babl (x, y, w, h) compression bit_depth) =
           (if fst (export_color_type B babl) = PNG_COLOR_TYPE_RGB
             \<or> fst (export_color_type B babl) = PNG_COLOR_TYPE_RGB_ALPHA
            then [Png_set_sRGB_gAMA_and_cHRM PNG_sRGB_INTENT_RELATIVE] else [])
       \<and> export_white B (fst (export_color_type B babl)) (babl_format_get_space B babl) =
           (if fst (export_color_type B babl) = PNG_COLOR_TYPE_RGB
             \<or> fst (export_color_type B babl) = PNG_COLOR_TYPE_RGB_ALPHA
            then \<lparr> c16_index = None, c16_red = Some 0xff, c16_green = Some 0xff,
                   c16_blue = Some 0xff, c16_gray = None \<rparr>
            else \<lparr> c16_index = None, c16_red = None, c16_green = None,
                   c16_blue = None, c16_gray = Some 0xff \<rparr>)"
proof -
  have "export_color_events B (fst (export_color_type B babl)) (babl_format_get_space B babl) =
           (if fst (export_color_type B babl) = PNG_COLOR_TYPE_RGB
             \<or> fst (export_color_type B babl) = PNG_COLOR_TYPE_RGB_ALPHA
            then [Png_set_sRGB_gAMA_and_cHRM PNG_sRGB_INTENT_RELATIVE] else [])"
    using assms
    by (cases "babl_format_get_space B babl") (simp_all add: export_color_events_def)
  then have 1: "filter is_color_chunk
                  (export_png_calls B le babl (x, y, w, h) compression bit_depth) =
           (if fst (export_color_type B babl) = PNG_COLOR_TYPE_RGB
             \<or> fst (export_color_type B babl) = PNG_COLOR_TYPE_RGB_ALPHA
            then [Png_set_sRGB_gAMA_and_cHRM PNG_sRGB_INTENT_RELATIVE] else [])"
    by (simp only: export_calls_filter_color)
  have 2: "export_white B (fst (export_color_type B babl)) (babl_format_get_space B babl) =
           (if fst (export_color_type B babl) = PNG_COLOR_TYPE_RGB
             \<or> fst (export_color_type B babl) = PNG_COLOR_TYPE_RGB_ALPHA
            then \<lparr> c16_index = None, c16_red = Some 0xff, c16_green = Some 0xff,
                   c16_blue = Some 0xff, c16_gray = None \<rparr>
            else \<lparr> c16_index = None, c16_red = None, c16_green = None,
                   c16_blue = None, c16_gray = Some 0xff \<rparr>)"
    using assms
    by (cases "babl_format_get_space B babl") (simp_all add: export_white_def Let_def)
  from 1 2 show ?thesis by (rule conjI)
qed

text \<open>A 16-bit RGB+alpha image in sRGB, and a gray+alpha image with no space.\<close>

theorem srgb_chunk_for_rgb_only_witness:
  "filter is_color_chunk
     (export_png_calls term_babl True (Format ''R'G'B'A u16'' (Some (Space ''sRGB'')))
        (0, 0, 2, 2) 3 16) =
     [Png_set_sRGB_gAMA_and_cHRM PNG_sRGB_INTENT_RELATIVE]
   \<and> filter is_color_chunk
     (export_png_calls term_babl True (Format ''Y'A u8'' None) (0, 0, 2, 2) 3 8) = []"
proof -
  have 1: "babl_format_get_space term_babl (Format ''R'G'B'A u16'' (Some (Space ''sRGB''))) = None
         \<or> babl_format_get_space term_babl (Format ''R'G'B'A u16'' (Some (Space ''sRGB'')))
             = Some (babl_space term_babl ''sRGB'')"
    by (simp add: term_babl_def)
  have 2: "babl_format_get_space term_babl (Format ''Y'A u8'' None) = None
         \<or> babl_format_get_space term_babl (Format ''Y'A u8'' None)
             = Some (babl_space term_babl ''sRGB'')"
    by (simp add: term_babl_def)
  have 3: "fst (export_color_type term_babl (Format ''R'G'B'A u16'' (Some (Space ''sRGB''))))
             = PNG_COLOR_TYPE_RGB_ALPHA"
    by (simp add: export_color_type_def term_babl_def)
  have 4: "fst (export_color_type term_babl (Format ''Y'A u8'' None)) = PNG_COLOR_TYPE_GRAY_ALPHA"
    by (simp add: export_color_type_def term_babl_def)
  from srgb_chunk_for_rgb_only [OF 1, of True 0 0 2 2 3 16, THEN conjunct1]
       srgb_chunk_for_rgb_only [OF 2, of True 0 0 2 2 3 8, THEN conjunct1] 3 4
  show ?thesis by (simp add: png_consts)
qed

section \<open>Stream failures\<close>

text \<open>
  Claim C9. A stream read, write or flush that fails should end the decode or encode
  with an error. \<^verbatim>\<open>write_fn\<close> prints the error and returns; libpng is not told, and
  \<^verbatim>\<open>export_png\<close> has no other test. Saving a 1x1 RGB image to a stream on which every
  write fails makes all the calls of a successful run, prints three messages, writes
  nothing, and \<^verbatim>\<open>process\<close> reports success.
\<close>

theorem write_failure_ignored:
  "process_save term_babl failing_gio (quiet_libpng plain_info) True (Some [])
       (Format ''R'G'B' u8'' None) (0, 0, 1, 1) 3 8 =
     \<lparr> sr_status = True, sr_stream = Some [],
       sr_stderr = [''gegl:save-png write_fn: No space left on device'',
                    ''gegl:save-png write_fn: No space left on device'',
                    ''gegl:save-png write_fn: No space left on device''],
       sr_events = [Png_create_write_struct, Png_create_info_struct, Png_set_write_fn,
         Png_set_compression_level 3,
         Png_set_IHDR 1 1 8 PNG_COLOR_TYPE_RGB PNG_INTERLACE_NONE
           PNG_COMPRESSION_TYPE_BASE PNG_FILTER_TYPE_DEFAULT,
         Png_set_sRGB_gAMA_and_cHRM PNG_sRGB_INTENT_RELATIVE,
         Png_set_bKGD \<lparr> c16_index = None, c16_red = Some 0xff, c16_green = Some 0xff,
                        c16_blue = Some 0xff, c16_gray = None \<rparr>,
         Png_write_info,
         Gegl_buffer_get (0, 0, 1, 1) (Some (Format ''R'G'B' u8'' None)),
         Png_write_rows,
         Png_write_end,
         Png_destroy_write_struct] \<rparr>"
  by (simp add: run_save_defs failing_gio_def)

section \<open>Interlacing on encode\<close>

lemma color_events_are_color:
  "e \<in> set (export_color_events B ct space) \<Longrightarrow> is_color_chunk e"
  using export_color_events_color [of B ct space] by (simp add: filter_id_conv)

lemma export_calls_not_interlaced:
  assumes "e \<in> set (export_png_calls B le babl (x, y, w, h) compression bit_depth)"
  shows "e \<noteq> Png_set_interlace_handling
       \<and> (e = Png_set_IHDR width height depth color_type interlace cm fm
            \<longrightarrow> interlace = PNG_INTERLACE_NONE)"
proof (cases "is_color_chunk e")
  case True
  then show ?thesis by auto
next
  case False
  with assms color_events_are_color [of e B] show ?thesis
    by (auto simp: export_png_calls_def Let_def split: if_splits)
qed

text \<open>
  Claim C10. Among the calls of an encode there is no \<^verbatim>\<open>png_set_interlace_handling\<close>,
  and every \<^verbatim>\<open>png_set_IHDR\<close> passes \<^verbatim>\<open>PNG_INTERLACE_NONE\<close>, for every image, space,
  bit depth, compression level and behaviour of libpng and of the stream.
\<close>

theorem never_interlaced:
  assumes "e \<in> set (sr_events (process_save B G L le opened babl (x, y, w, h) compression bitdepth))"
  shows "e \<noteq> Png_set_interlace_handling
       \<and> (e = Png_set_IHDR width height depth color_type interlace cm fm
            \<longrightarrow> interlace = PNG_INTERLACE_NONE)"
proof -
  from process_save_events [OF assms]
  have "e \<in> {Png_create_write_struct, Png_create_info_struct, Png_set_write_fn,
              Png_destroy_write_struct}
       \<or> e \<in> set (export_png_calls B le babl (x, y, w, h) compression bitdepth)" .
  then show ?thesis
  proof
    assume "e \<in> {Png_create_write_struct, Png_create_info_struct, Png_set_write_fn,
              Png_destroy_write_struct}"
    then show ?thesis by auto
  next
    assume "e \<in> set (export_png_calls B le babl (x, y, w, h) compression bitdepth)"
    then show ?thesis by (rule export_calls_not_interlaced)
  qed
qed

text \<open>The header call of the first run above.\<close>

theorem never_interlaced_witness:
  "Png_set_IHDR 1 1 8 PNG_COLOR_TYPE_RGB 0 PNG_COMPRESSION_TYPE_BASE PNG_FILTER_TYPE_DEFAULT
     \<in> set (sr_events (process_save term_babl memory_gio (quiet_libpng plain_info) True (Some [])
                (Format ''R'G'B' u8'' (Some (Icc_space [1, 2, 3] False))) (0, 0, 1, 1) 3 8))
   \<and> (0 :: int) = PNG_INTERLACE_NONE"
proof -
  have 1: "Png_set_IHDR 1 1 8 PNG_COLOR_TYPE_RGB 0 PNG_COMPRESSION_TYPE_BASE PNG_FILTER_TYPE_DEFAULT
     \<in> set (sr_events (process_save term_babl memory_gio (quiet_libpng plain_info) True (Some [])
                (Format ''R'G'B' u8'' (Some (Icc_space [1, 2, 3] False))) (0, 0, 1, 1) 3 8))"
    by (simp add: save_with_icc_profile png_consts)
  from never_interlaced [OF 1, of 1 1 8 PNG_COLOR_TYPE_RGB 0 PNG_COMPRESSION_TYPE_BASE
      PNG_FILTER_TYPE_DEFAULT] 1
  show ?thesis by simp
qed

end
